theory Spec2Isabelle
  imports Complex_Main "HOL-Library.AList" "HOL-Library.Log_Nat"
begin

section \<open>JavaScript strings, numbers and values\<close>

text \<open>
  A JavaScript string is a sequence of UTF-16 code units; the tokenizer reads it one code
  unit at a time (\<^verbatim>\<open>jsonString[pos]\<close>) and compares code units, among them the two
  full-width punctuation marks U+FF1A and U+FF0C. A code unit is an integer here (what
  \<^verbatim>\<open>charCodeAt\<close> returns), and \<open>js\<close> turns an ASCII literal into such a string.
\<close>

type_synonym jsstring = "int list"

definition js :: "string \<Rightarrow> jsstring" where
  "js s = map of_char s"

abbreviation ch :: "char \<Rightarrow> int" where
  "ch c \<equiv> of_char c"

definition DQUOTE :: int where "DQUOTE = 34"
definition SQUOTE :: int where "SQUOTE = 39"
definition BACKSLASH :: int where "BACKSLASH = 92"
definition LF :: int where "LF = 10"
definition CR :: int where "CR = 13"
definition CN_COLON :: int where "CN_COLON = 65306"
definition CN_COMMA :: int where "CN_COMMA = 65292"

text \<open>
  A number is a binary64 float: \<open>NaN\<close>, an infinity, the negative zero, or a finite value,
  kept as the rational number it is equal to (\<open>JNum 0\<close> is the positive zero). \<open>negate\<close> is
  the unary minus of line 437.
\<close>

datatype jsnum = NaN | PosInfinity | NegInfinity | NegZero | JNum rat

fun negate :: "jsnum \<Rightarrow> jsnum" where
  "negate NaN = NaN"
| "negate PosInfinity = NegInfinity"
| "negate NegInfinity = PosInfinity"
| "negate NegZero = JNum 0"
| "negate (JNum r) = (if r = 0 then NegZero else JNum (- r))"

text \<open>
  The number value of a non-negative real: the binary64 float nearest to it, the one with
  the even significand when two are equally near. A finite binary64 float is a multiple
  \<open>m * 2 ^ p\<close> with \<open>m < 2 ^ 53\<close> and \<open>p\<close> from -1074 to 971; for \<open>a\<close> between \<open>2 ^ e\<close> and
  \<open>2 ^ (e + 1)\<close> the floats around \<open>a\<close> are the multiples of \<open>2 ^ (e - 52)\<close>, and of
  \<open>2 ^ (- 1074)\<close> below the normal range. What rounds to \<open>2 ^ 1024\<close> or more is \<open>Infinity\<close>.
\<close>

definition pow2 :: "int \<Rightarrow> rat" where
  "pow2 e = (if 0 \<le> e then 2 ^ nat e else 1 / 2 ^ nat (- e))"

definition roundHalfEven :: "rat \<Rightarrow> int" where
  "roundHalfEven q =
     (let f = \<lfloor>q\<rfloor>; d = q - of_int f
      in if d < 1 / 2 then f else if 1 / 2 < d then f + 1 else if even f then f else f + 1)"

text \<open>The \<open>e\<close> with \<open>2 ^ e \<le> a < 2 ^ (e + 1)\<close>, for a positive \<open>a\<close>.\<close>

definition binaryExponent :: "rat \<Rightarrow> int" where
  "binaryExponent a =
     (if 1 \<le> a then bitlen \<lfloor>a\<rfloor> - 1
      else (let e = - bitlen \<lfloor>1 / a\<rfloor> in if pow2 (e + 1) \<le> a then e + 1 else e))"

definition toDouble :: "rat \<Rightarrow> jsnum" where
  "toDouble a =
     (if a \<le> 0 then JNum 0
      else
        let p = max (binaryExponent a - 52) (- 1074);
            m = roundHalfEven (a / pow2 p)
        in if 971 < p \<or> (p = 971 \<and> 2 ^ 53 \<le> m) then PosInfinity
           else JNum (of_int m * pow2 p))"

text \<open>
  A value is a primitive or a reference to an object or array of the store. \<open>VUndefined\<close>
  is JavaScript's \<^verbatim>\<open>undefined\<close>, distinct from \<open>VNull\<close>.
\<close>

datatype jsval =
    VUndefined
  | VNull
  | VBool bool
  | VNumber jsnum
  | VString jsstring
  | VRef nat

subsection \<open>Library functions on strings\<close>

text \<open>The white space of \<^verbatim>\<open>\s\<close>, of \<^verbatim>\<open>parseInt\<close> and of \<^verbatim>\<open>parseFloat\<close>.\<close>

definition isWhiteSpace :: "int \<Rightarrow> bool" where
  "isWhiteSpace c \<longleftrightarrow>
     c \<in> set [9, 10, 11, 12, 13, 32, 160, 5760, 8232, 8233, 8239, 8287, 12288, 65279]
     \<or> (8192 \<le> c \<and> c \<le> 8202)"

definition isDigit :: "int \<Rightarrow> bool" where
  "isDigit c \<longleftrightarrow> 48 \<le> c \<and> c \<le> 57"

text \<open>\<^verbatim>\<open>s.slice(-n)\<close> for a non-negative \<open>n\<close>: the last \<open>n\<close> code units.\<close>

definition sliceLast :: "nat \<Rightarrow> 'a list \<Rightarrow> 'a list" where
  "sliceLast n s = drop (length s - n) s"

text \<open>\<^verbatim>\<open>s.slice(a, b)\<close> for non-negative indices: both are clamped to the length.\<close>

definition slice :: "'a list \<Rightarrow> nat \<Rightarrow> nat \<Rightarrow> 'a list" where
  "slice s a b = take (b - a) (drop a s)"

text \<open>\<^verbatim>\<open>s[i]\<close>: \<^verbatim>\<open>undefined\<close> (here \<open>None\<close>) out of range.\<close>

definition charAt :: "'a list \<Rightarrow> nat \<Rightarrow> 'a option" where
  "charAt s i = (if i < length s then Some (s ! i) else None)"

text \<open>
  \<^verbatim>\<open>toLowerCase\<close>: exact on ASCII and on the two other code units whose lower case holds
  an ASCII letter (U+212A, the Kelvin sign, and U+0130, the dotted capital I). Every other
  code unit is kept: its lower case is not ASCII either, so no comparison with an ASCII
  string depends on it.
\<close>

definition lowerUnit :: "int \<Rightarrow> jsstring" where
  "lowerUnit c =
     (if 65 \<le> c \<and> c \<le> 90 then [c + 32]
      else if c = 8490 then [107]
      else if c = 304 then [105, 775]
      else [c])"

definition toLowerCase :: "jsstring \<Rightarrow> jsstring" where
  "toLowerCase s = concat (map lowerUnit s)"

text \<open>\<^verbatim>\<open>xs.join(' ')\<close>.\<close>

fun joinSpace :: "jsstring list \<Rightarrow> jsstring" where
  "joinSpace [] = []"
| "joinSpace [x] = x"
| "joinSpace (x # y # ys) = x @ [32] @ joinSpace (y # ys)"

subsection \<open>Numerals\<close>

text \<open>The value of a digit in \<^verbatim>\<open>parseInt\<close>: 0-9, then a-z and A-Z for 10 to 35.\<close>

definition digitValue :: "int \<Rightarrow> nat option" where
  "digitValue c =
     (if 48 \<le> c \<and> c \<le> 57 then Some (nat (c - 48))
      else if 97 \<le> c \<and> c \<le> 122 then Some (nat (c - 87))
      else if 65 \<le> c \<and> c \<le> 90 then Some (nat (c - 55))
      else None)"

definition isRadixDigit :: "nat \<Rightarrow> int \<Rightarrow> bool" where
  "isRadixDigit r c = (case digitValue c of None \<Rightarrow> False | Some d \<Rightarrow> d < r)"

definition digitsValue :: "nat \<Rightarrow> jsstring \<Rightarrow> nat" where
  "digitsValue r ds = foldl (\<lambda>acc c. acc * r + (case digitValue c of None \<Rightarrow> 0 | Some d \<Rightarrow> d)) 0 ds"

text \<open>
  \<^verbatim>\<open>parseInt(s, radix)\<close> for the radix 2, 8 or 16: leading white space is dropped, then
  a sign, then (radix 16 only) a \<^verbatim>\<open>0x\<close> or \<^verbatim>\<open>0X\<close> prefix; the result is the number value of
  the longest run of digits of the radix, with the sign, and an empty run gives \<open>NaN\<close>.
\<close>

definition stripHexPrefix :: "jsstring \<Rightarrow> jsstring" where
  "stripHexPrefix s =
     (case s of
        a # b # rest \<Rightarrow> if a = 48 \<and> (b = 120 \<or> b = 88) then rest else s
      | _ \<Rightarrow> s)"

definition parseInt :: "jsstring \<Rightarrow> nat \<Rightarrow> jsnum" where
  "parseInt s radix =
     (let s1 = dropWhile isWhiteSpace s;
          neg = (case s1 of c # _ \<Rightarrow> c = 45 | [] \<Rightarrow> False);
          s2 = (case s1 of c # r \<Rightarrow> if c = 45 \<or> c = 43 then r else s1 | [] \<Rightarrow> s1);
          s3 = (if radix = 16 then stripHexPrefix s2 else s2);
          z = takeWhile (isRadixDigit radix) s3
      in if z = [] then NaN
         else if neg then negate (toDouble (of_nat (digitsValue radix z)))
         else toDouble (of_nat (digitsValue radix z)))"

text \<open>
  \<^verbatim>\<open>parseFloat(s)\<close>: leading white space is dropped; the longest prefix that is a decimal
  literal (a sign, then \<^verbatim>\<open>Infinity\<close>, or digits with an optional fraction, or a dot and
  digits, then an optional exponent that has at least one digit) is read, and the result
  is the number value of what it denotes; with no such prefix the result is \<open>NaN\<close>. (For a
  literal of more than 20 significant digits the language lets an engine round a
  truncation of it instead; like V8, the model rounds the literal itself.)
\<close>

definition exponentPart :: "jsstring \<Rightarrow> int" where
  "exponentPart s =
     (case s of
        [] \<Rightarrow> 0
      | e # r \<Rightarrow>
          if e = 101 \<or> e = 69 then
            (case r of
               [] \<Rightarrow> 0
             | g # r' \<Rightarrow>
                 if g = 45 then
                   (if takeWhile isDigit r' = [] then 0
                    else - int (digitsValue 10 (takeWhile isDigit r')))
                 else if g = 43 then int (digitsValue 10 (takeWhile isDigit r'))
                 else int (digitsValue 10 (takeWhile isDigit r)))
          else 0)"

definition scale10 :: "rat \<Rightarrow> int \<Rightarrow> rat" where
  "scale10 m e = (if 0 \<le> e then m * 10 ^ nat e else m / 10 ^ nat (- e))"

definition unsignedDecimal :: "jsstring \<Rightarrow> jsnum" where
  "unsignedDecimal s =
     (if take 8 s = js ''Infinity'' then PosInfinity
      else
        let ip = takeWhile isDigit s;
            r1 = dropWhile isDigit s;
            hasDot = (case r1 of c # _ \<Rightarrow> c = 46 | [] \<Rightarrow> False);
            fp = (if hasDot then takeWhile isDigit (tl r1) else []);
            r2 = (if hasDot then dropWhile isDigit (tl r1) else r1)
        in if ip = [] \<and> fp = [] then NaN
           else toDouble (scale10 (of_nat (digitsValue 10 (ip @ fp)))
                            (exponentPart r2 - int (length fp))))"

definition parseFloat :: "jsstring \<Rightarrow> jsnum" where
  "parseFloat s =
     (let s1 = dropWhile isWhiteSpace s
      in case s1 of
           [] \<Rightarrow> NaN
         | c # r \<Rightarrow>
             if c = 45 then negate (unsignedDecimal r)
             else if c = 43 then unsignedDecimal r
             else unsignedDecimal s1)"

subsection \<open>\<^verbatim>\<open>JSON.parse\<close> on a string literal\<close>

datatype error =
    UnmatchedClosingBrace
  | UnmatchedClosingBracket
  | UnexpectedKeyToken jsstring
  | UnexpectedPunctuation
  | SyntaxError
  | TypeError

text \<open>
  \<^verbatim>\<open>parseStringValue\<close> hands the text of a STRING token to \<^verbatim>\<open>JSON.parse\<close>. Every STRING
  token of \<open>tokenize\<close> starts with a double quote, so the text is accepted exactly when it
  is one JSON string literal (white space may follow); \<open>JSON_parse\<close> is the strict decoder on
  such texts and answers \<open>SyntaxError\<close> on any other.
\<close>

definition simpleEscape :: "int \<Rightarrow> int option" where
  "simpleEscape e =
     (if e = 34 then Some 34
      else if e = 92 then Some 92
      else if e = 47 then Some 47
      else if e = 98 then Some 8
      else if e = 102 then Some 12
      else if e = 110 then Some 10
      else if e = 114 then Some 13
      else if e = 116 then Some 9
      else None)"

definition isHexDigit :: "int \<Rightarrow> bool" where
  "isHexDigit c \<longleftrightarrow> (48 \<le> c \<and> c \<le> 57) \<or> (97 \<le> c \<and> c \<le> 102) \<or> (65 \<le> c \<and> c \<le> 70)"

fun jsonStringBody :: "jsstring \<Rightarrow> (jsstring \<times> jsstring) option" where
  "jsonStringBody [] = None"
| "jsonStringBody (c # cs) =
     (if c = 34 then Some ([], cs)
      else if c = 92 then
        (case cs of
           [] \<Rightarrow> None
         | e # r \<Rightarrow>
             if e = 117 then
               (if 4 \<le> length r \<and> list_all isHexDigit (take 4 r) then
                  (case jsonStringBody (drop 4 r) of
                     None \<Rightarrow> None
                   | Some (out, rest) \<Rightarrow> Some (int (digitsValue 16 (take 4 r)) # out, rest))
                else None)
             else
               (case simpleEscape e of
                  None \<Rightarrow> None
                | Some d \<Rightarrow>
                    (case jsonStringBody r of
                       None \<Rightarrow> None
                     | Some (out, rest) \<Rightarrow> Some (d # out, rest))))
      else if c < 32 then None
      else
        (case jsonStringBody cs of
           None \<Rightarrow> None
         | Some (out, rest) \<Rightarrow> Some (c # out, rest)))"

definition isJsonWhiteSpace :: "int \<Rightarrow> bool" where
  "isJsonWhiteSpace c \<longleftrightarrow> c = 32 \<or> c = 9 \<or> c = 10 \<or> c = 13"

definition JSON_parse :: "jsstring \<Rightarrow> error + jsstring" where
  "JSON_parse text =
     (case dropWhile isJsonWhiteSpace text of
        [] \<Rightarrow> Inl SyntaxError
      | q # body \<Rightarrow>
          if q = 34 then
            (case jsonStringBody body of
               None \<Rightarrow> Inl SyntaxError
             | Some (out, rest) \<Rightarrow>
                 if list_all isJsonWhiteSpace rest then Inr out else Inl SyntaxError)
          else Inl SyntaxError)"

section \<open>Tokens and constants (\<^verbatim>\<open>lib/constants.ts\<close>)\<close>

datatype TokenType = STRING | BRACKET | PUNCTUATION | NUMBER | IDENTIFIER | COMMENT

text \<open>
  \<^verbatim>\<open>interface Token\<close>. The optional fields read as \<^verbatim>\<open>undefined\<close> when absent: \<open>radix\<close> is
  then \<open>None\<close>, and the two flags, only ever tested for truth, are \<open>False\<close>.
\<close>

record Token =
  ttype :: TokenType
  tvalue :: jsstring
  radix :: "nat option"
  isNegative :: bool
  isPositive :: bool

definition mkToken :: "TokenType \<Rightarrow> jsstring \<Rightarrow> Token" where
  "mkToken t v = \<lparr>ttype = t, tvalue = v, radix = None, isNegative = False, isPositive = False\<rparr>"

definition RADIX_BINARY :: nat where "RADIX_BINARY = 2"
definition RADIX_OCTAL :: nat where "RADIX_OCTAL = 8"
definition RADIX_DECIMAL :: nat where "RADIX_DECIMAL = 10"
definition RADIX_HEXADECIMAL :: nat where "RADIX_HEXADECIMAL = 16"

text \<open>The alias tables are \<^verbatim>\<open>Set\<close>s of strings; \<^verbatim>\<open>has\<close> is membership.\<close>

definition TRUE_ALIAS :: "jsstring list" where
  "TRUE_ALIAS = map js [''t'', ''tr'', ''tru'', ''true'']"

definition FALSE_ALIAS :: "jsstring list" where
  "FALSE_ALIAS = map js [''f'', ''fa'', ''fal'', ''fals'', ''false'']"

definition NULL_ALIAS :: "jsstring list" where
  "NULL_ALIAS = map js [''n'', ''nu'', ''nul'', ''null'', ''no'', ''non'', ''none'', ''nil'', ''nill'']"

definition UNDEFINED_ALIAS :: "jsstring list" where
  "UNDEFINED_ALIAS =
     map js [''u'', ''un'', ''und'', ''unde'', ''undef'', ''undefi'', ''undefin'', ''undefined'']"

definition has :: "jsstring list \<Rightarrow> jsstring \<Rightarrow> bool" where
  "has table s \<longleftrightarrow> s \<in> set table"

section \<open>The tokenizer (\<^verbatim>\<open>lib/tokenizer.ts\<close>)\<close>

text \<open>
  A loop that only advances \<^verbatim>\<open>pos\<close> while the character there passes a test
  (\<^verbatim>\<open>while (pos < len && test(jsonString[pos])) pos++\<close>) ends at \<open>scanWhile test s pos\<close>.
\<close>

definition scanWhile :: "(int \<Rightarrow> bool) \<Rightarrow> jsstring \<Rightarrow> nat \<Rightarrow> nat" where
  "scanWhile test s pos = pos + length (takeWhile test (drop pos s))"

subsection \<open>\<^verbatim>\<open>parseIdentifierToken\<close>\<close>

text \<open>The characters of \<^verbatim>\<open>/["{}[\],:\<dots>\s]/\<close>, which end an identifier.\<close>

definition isIdentifierStop :: "int \<Rightarrow> bool" where
  "isIdentifierStop c \<longleftrightarrow>
     c = DQUOTE \<or> c = ch CHR ''{'' \<or> c = ch CHR ''}'' \<or> c = ch CHR ''['' \<or> c = ch CHR '']''
     \<or> c = ch CHR '','' \<or> c = ch CHR '':'' \<or> c = CN_COLON \<or> c = CN_COMMA \<or> isWhiteSpace c"

definition parseIdentifierToken :: "jsstring \<Rightarrow> nat \<Rightarrow> Token option \<times> nat" where
  "parseIdentifierToken s startPos =
     (let pos = scanWhile (\<lambda>c. \<not> isIdentifierStop c) s startPos
      in if pos > startPos then (Some (mkToken IDENTIFIER (slice s startPos pos)), pos)
         else (None, pos + 1))"

subsection \<open>\<^verbatim>\<open>skipComment\<close>\<close>

function blockCommentLoop :: "jsstring \<Rightarrow> nat \<Rightarrow> nat" where
  "blockCommentLoop s pos =
     (if pos + 1 < length s then
        (if s ! pos = ch CHR ''*'' \<and> s ! (pos + 1) = ch CHR ''/'' then pos + 2
         else blockCommentLoop s (pos + 1))
      else pos)"
  by pat_completeness auto
termination
  by (relation "measure (\<lambda>(s, pos). length s - pos)") auto

declare blockCommentLoop.simps [simp del]

definition skipComment :: "jsstring \<Rightarrow> nat \<Rightarrow> bool \<times> nat" where
  "skipComment s startPos =
     (if startPos + 1 \<ge> length s then (False, startPos + 1)
      else if s ! (startPos + 1) = ch CHR ''/'' then
        (let pos = scanWhile (\<lambda>c. c \<noteq> LF \<and> c \<noteq> CR) s (startPos + 2);
             pos1 = (if pos < length s \<and> (s ! pos = LF \<or> s ! pos = CR) then
                       (if pos + 1 < length s \<and> s ! pos = CR \<and> s ! (pos + 1) = LF
                        then pos + 2 else pos + 1)
                     else pos)
         in (True, pos1))
      else if s ! (startPos + 1) = ch CHR ''*'' then
        (let pos = blockCommentLoop s (startPos + 2);
             pos1 = (if pos + 1 \<ge> length s
                        \<and> \<not> (charAt s (pos - 1) = Some (ch CHR ''*'') \<and> charAt s pos = Some (ch CHR ''/''))
                     then length s else pos)
         in (True, pos1))
      else (False, startPos))"

subsection \<open>\<^verbatim>\<open>parseStringToken\<close>\<close>

text \<open>
  \<^verbatim>\<open>/\\["']([,:])?$/.exec(beforeNewline)\<close>: the index of the match. The pattern is two or
  three characters long and ends at the end of the text, so a match starts at the third
  last or at the second last character; the earlier start is tried first.
\<close>

definition isQuote :: "int \<Rightarrow> bool" where
  "isQuote c \<longleftrightarrow> c = DQUOTE \<or> c = SQUOTE"

definition matchEscapedQuote :: "jsstring \<Rightarrow> nat option" where
  "matchEscapedQuote b =
     (let n = length b
      in if 3 \<le> n \<and> b ! (n - 3) = BACKSLASH \<and> isQuote (b ! (n - 2))
            \<and> (b ! (n - 1) = ch CHR '','' \<or> b ! (n - 1) = ch CHR '':'')
         then Some (n - 3)
         else if 2 \<le> n \<and> b ! (n - 2) = BACKSLASH \<and> isQuote (b ! (n - 1)) then Some (n - 2)
         else None)"

text \<open>
  The loop of lines 136-165, from the loop variable \<open>pos\<close> on: the position after the
  loop, and the index of the match when the loop ended by early termination.
\<close>

function scanString :: "jsstring \<Rightarrow> nat \<Rightarrow> int \<Rightarrow> nat \<Rightarrow> nat \<times> nat option" where
  "scanString s startPos quoteChar pos =
     (if pos < length s then
        (let c = s ! pos
         in if c = quoteChar then (pos + 1, None)
            else if c = BACKSLASH then scanString s startPos quoteChar (pos + 2)
            else if c = LF \<or> c = CR then
              (case matchEscapedQuote (slice s (startPos + 1) pos) of
                 Some index \<Rightarrow> (startPos + 1 + index, Some index)
               | None \<Rightarrow> scanString s startPos quoteChar (pos + 1))
            else scanString s startPos quoteChar (pos + 1))
      else (pos, None))"
  by pat_completeness auto
termination
  by (relation "measure (\<lambda>(s, startPos, quoteChar, pos). length s - pos)") auto

declare scanString.simps [simp del]

text \<open>
  \<open>scanReaches s startPos quoteChar pos pos'\<close>: the loop, run with its variable at \<open>pos\<close>,
  comes to its header with the variable at \<open>pos'\<close>.
\<close>

inductive scanReaches :: "jsstring \<Rightarrow> nat \<Rightarrow> int \<Rightarrow> nat \<Rightarrow> nat \<Rightarrow> bool"
  for s :: jsstring and startPos :: nat and quoteChar :: int where
  here: "scanReaches s startPos quoteChar pos pos"
| escape: "pos < length s \<Longrightarrow> s ! pos \<noteq> quoteChar \<Longrightarrow> s ! pos = BACKSLASH
     \<Longrightarrow> scanReaches s startPos quoteChar (pos + 2) pos'
     \<Longrightarrow> scanReaches s startPos quoteChar pos pos'"
| newline: "pos < length s \<Longrightarrow> s ! pos \<noteq> quoteChar \<Longrightarrow> s ! pos \<noteq> BACKSLASH
     \<Longrightarrow> s ! pos = LF \<or> s ! pos = CR
     \<Longrightarrow> matchEscapedQuote (slice s (startPos + 1) pos) = None
     \<Longrightarrow> scanReaches s startPos quoteChar (pos + 1) pos'
     \<Longrightarrow> scanReaches s startPos quoteChar pos pos'"
| other: "pos < length s \<Longrightarrow> s ! pos \<noteq> quoteChar \<Longrightarrow> s ! pos \<noteq> BACKSLASH
     \<Longrightarrow> s ! pos \<noteq> LF \<Longrightarrow> s ! pos \<noteq> CR
     \<Longrightarrow> scanReaches s startPos quoteChar (pos + 1) pos'
     \<Longrightarrow> scanReaches s startPos quoteChar pos pos'"

text \<open>Lines 184-197: a double quote that no backslash precedes gets one.\<close>

fun escapeDoubleQuotes :: "int option \<Rightarrow> jsstring \<Rightarrow> jsstring" where
  "escapeDoubleQuotes prev [] = []"
| "escapeDoubleQuotes prev (c # cs) =
     (if c = DQUOTE \<and> prev \<noteq> Some BACKSLASH then [BACKSLASH, DQUOTE] else [c])
     @ escapeDoubleQuotes (Some c) cs"

text \<open>Lines 178-200; \<^verbatim>\<open>slice(1, -1)\<close> drops the first and the last character.\<close>

definition normalizeQuotes :: "int \<Rightarrow> jsstring \<Rightarrow> jsstring" where
  "normalizeQuotes quoteChar tokenValue =
     (if quoteChar = SQUOTE
      then [DQUOTE] @ escapeDoubleQuotes None (butlast (drop 1 tokenValue)) @ [DQUOTE]
      else tokenValue)"

text \<open>
  The result is the token, \<^verbatim>\<open>newPos\<close> and \<^verbatim>\<open>skippedBadEscape\<close>. After an early
  termination the content is \<^verbatim>\<open>beforeNewline.substring(0, index)\<close>, the text from
  \<open>startPos + 1\<close> up to the match.
\<close>

definition parseStringToken :: "jsstring \<Rightarrow> nat \<Rightarrow> Token \<times> nat \<times> bool" where
  "parseStringToken s startPos =
     (let quoteChar = s ! startPos
      in case scanString s startPos quoteChar (startPos + 1) of
           (pos, Some index) \<Rightarrow>
             (mkToken STRING
                (normalizeQuotes quoteChar
                   ([quoteChar] @ slice s (startPos + 1) (startPos + 1 + index) @ [quoteChar])),
              pos, True)
         | (pos, None) \<Rightarrow>
             (let tokenValue = slice s startPos pos;
                  tokenValue1 = (if tokenValue \<noteq> [] \<and> last tokenValue = quoteChar then tokenValue
                                 else tokenValue @ [quoteChar])
              in (mkToken STRING (normalizeQuotes quoteChar tokenValue1), pos, False)))"

subsection \<open>\<^verbatim>\<open>parsePunctuationToken\<close>\<close>

definition parsePunctuationToken :: "int \<Rightarrow> Token" where
  "parsePunctuationToken c =
     mkToken PUNCTUATION
       [if c = CN_COLON then ch CHR '':'' else if c = CN_COMMA then ch CHR '','' else c]"

subsection \<open>\<^verbatim>\<open>parseNumberToken\<close>\<close>

definition isDecimalRunChar :: "int \<Rightarrow> bool" where
  "isDecimalRunChar c \<longleftrightarrow>
     isDigit c \<or> c = ch CHR ''.'' \<or> c = ch CHR ''e'' \<or> c = ch CHR ''E'' \<or> c = ch CHR ''+''
     \<or> c = ch CHR ''-''"

definition isOctalDigit :: "int \<Rightarrow> bool" where
  "isOctalDigit c \<longleftrightarrow> 48 \<le> c \<and> c \<le> 55"

definition isBinaryDigit :: "int \<Rightarrow> bool" where
  "isBinaryDigit c \<longleftrightarrow> c = 48 \<or> c = 49"

text \<open>Lines 305-316, for the end \<open>pos\<close> of the number and its radix.\<close>

definition numberToken :: "jsstring \<Rightarrow> nat \<Rightarrow> bool \<Rightarrow> bool \<Rightarrow> nat \<Rightarrow> nat \<Rightarrow> Token option \<times> nat" where
  "numberToken s startPos neg posSign rdx pos =
     (Some \<lparr>ttype = NUMBER,
            tvalue = slice s (if neg \<or> posSign then startPos + 1 else startPos) pos,
            radix = Some rdx, isNegative = neg, isPositive = posSign\<rparr>,
      pos)"

definition parseNumberToken :: "jsstring \<Rightarrow> nat \<Rightarrow> Token option \<times> nat" where
  "parseNumberToken s startPos =
     (let neg = (s ! startPos = ch CHR ''-'');
          posSign = (\<not> neg \<and> s ! startPos = ch CHR ''+'');
          pos = (if neg \<or> posSign then startPos + 1 else startPos)
      in if pos \<ge> length s then parseIdentifierToken s startPos
         else
           (let firstChar = s ! pos
            in if s ! startPos = ch CHR ''.'' \<or> (pos > startPos \<and> firstChar = ch CHR ''.'') then
                 (if firstChar = ch CHR ''.'' \<and> pos + 1 < length s \<and> isDigit (s ! (pos + 1))
                  then numberToken s startPos neg posSign RADIX_DECIMAL
                         (scanWhile isDecimalRunChar s (pos + 1))
                  else parseIdentifierToken s startPos)
               else if isDigit firstChar then
                 (if firstChar = ch CHR ''0'' \<and> pos + 1 < length s then
                    (let nextChar = s ! (pos + 1)
                     in if nextChar = ch CHR ''x'' \<or> nextChar = ch CHR ''X'' then
                          numberToken s startPos neg posSign RADIX_HEXADECIMAL
                            (scanWhile isHexDigit s (pos + 2))
                        else if nextChar = ch CHR ''o'' \<or> nextChar = ch CHR ''O'' then
                          numberToken s startPos neg posSign RADIX_OCTAL
                            (scanWhile isOctalDigit s (pos + 2))
                        else if nextChar = ch CHR ''b'' \<or> nextChar = ch CHR ''B'' then
                          numberToken s startPos neg posSign RADIX_BINARY
                            (scanWhile isBinaryDigit s (pos + 2))
                        else
                          numberToken s startPos neg posSign RADIX_DECIMAL
                            (scanWhile isDecimalRunChar s (pos + 1)))
                  else
                    numberToken s startPos neg posSign RADIX_DECIMAL
                      (scanWhile isDecimalRunChar s pos))
               else parseIdentifierToken s startPos))"

subsection \<open>\<^verbatim>\<open>tokenize\<close>\<close>

text \<open>Lines 72-81: after an early termination the bad escape is skipped.\<close>

definition skipBadEscape :: "jsstring \<Rightarrow> nat \<Rightarrow> nat" where
  "skipBadEscape s pos =
     (if pos < length s \<and> s ! pos = BACKSLASH \<and> pos + 1 < length s \<and> isQuote (s ! (pos + 1)) then
        (if pos + 2 < length s \<and> (s ! (pos + 2) = ch CHR '','' \<or> s ! (pos + 2) = ch CHR '':'')
         then pos + 3 else pos + 2)
      else pos)"

text \<open>
  One run of the loop body of \<^verbatim>\<open>tokenize\<close> at \<open>pos\<close>: the tokens it pushes and the new
  position. \<^verbatim>\<open>parseNumberToken\<close> passes on what \<^verbatim>\<open>parseIdentifierToken\<close> returns when the
  text is no number; that result always has a token there (\<open>parseNumberToken_token\<close>).
\<close>

definition pushToken :: "Token option \<Rightarrow> Token list" where
  "pushToken t = (case t of None \<Rightarrow> [] | Some token \<Rightarrow> [token])"

definition tokenizeStep :: "jsstring \<Rightarrow> nat \<Rightarrow> Token list \<times> nat" where
  "tokenizeStep s pos =
     (let char = s ! pos
      in if char \<le> 32 then ([], pos + 1)
         else if char = ch CHR ''/'' \<and> fst (skipComment s pos) then ([], snd (skipComment s pos))
         else if char = DQUOTE \<or> char = SQUOTE then
           (case parseStringToken s pos of
              (token, newPos, skippedBadEscape) \<Rightarrow>
                ([token], if skippedBadEscape then skipBadEscape s newPos else newPos))
         else if char = ch CHR ''{'' \<or> char = ch CHR ''}'' \<or> char = ch CHR ''['' \<or> char = ch CHR '']''
           then ([mkToken BRACKET [char]], pos + 1)
         else if char = ch CHR '','' \<or> char = ch CHR '':'' \<or> char = CN_COLON \<or> char = CN_COMMA
           then ([parsePunctuationToken char], pos + 1)
         else if isDigit char \<or> char = ch CHR ''-'' \<or> char = ch CHR ''+'' \<or> char = ch CHR ''.'' then
           (case parseNumberToken s pos of (token, newPos) \<Rightarrow> (pushToken token, newPos))
         else
           (case parseIdentifierToken s pos of (token, newPos) \<Rightarrow> (pushToken token, newPos)))"

text \<open>Every run of the loop body moves the position forward, so the loop ends.\<close>

lemma scanWhile_ge: "pos \<le> scanWhile test s pos"
  by (simp add: scanWhile_def)

lemma scanWhile_less: "a < pos \<Longrightarrow> a < scanWhile test s pos"
  by (simp add: scanWhile_def)

lemma scanWhile_gt: "pos < length s \<Longrightarrow> test (s ! pos) \<Longrightarrow> pos < scanWhile test s pos"
  by (cases "drop pos s") (auto simp: scanWhile_def hd_drop_conv_nth dest: arg_cong[where f=hd])

lemma blockCommentLoop_ge: "pos \<le> blockCommentLoop s pos"
proof (induction s pos rule: blockCommentLoop.induct)
  case (1 s pos)
  show ?case
    using 1 by (subst blockCommentLoop.simps) auto
qed

lemma skipComment_advances:
  assumes "fst (skipComment s startPos)"
  shows "startPos < snd (skipComment s startPos)"
proof -
  have a: "startPos < scanWhile (\<lambda>c. c \<noteq> LF \<and> c \<noteq> CR) s (startPos + 2)"
    by (simp add: scanWhile_less)
  have b: "startPos < blockCommentLoop s (startPos + 2)"
    using blockCommentLoop_ge[of "startPos + 2" s] by simp
  have c: "startPos + 1 < length s"
  proof (rule ccontr)
    assume "\<not> startPos + 1 < length s"
    then have "skipComment s startPos = (False, startPos + 1)"
      by (simp add: skipComment_def)
    with assms show False by simp
  qed
  show ?thesis
  proof (cases "s ! (startPos + 1) = ch CHR ''/''")
    case True
    then show ?thesis using a c by (simp add: skipComment_def Let_def)
  next
    case False
    have "s ! (startPos + 1) = ch CHR ''*''"
    proof (rule ccontr)
      assume "s ! (startPos + 1) \<noteq> ch CHR ''*''"
      then have "skipComment s startPos = (False, startPos)"
        using False c by (simp add: skipComment_def)
      with assms show False by simp
    qed
    then show ?thesis using b c False by (simp add: skipComment_def Let_def)
  qed
qed

lemma scanString_ge: "startPos < pos \<Longrightarrow> startPos < fst (scanString s startPos q pos)"
proof (induction s startPos q pos rule: scanString.induct)
  case (1 s startPos q pos)
  show ?case
    using 1 by (subst scanString.simps) (auto simp: Let_def split: option.splits)
qed

lemma skipBadEscape_ge: "pos \<le> skipBadEscape s pos"
  by (simp add: skipBadEscape_def)

lemma parseStringToken_advances: "parseStringToken s startPos = (token, newPos, b) \<Longrightarrow> startPos < newPos"
  using scanString_ge[of startPos "startPos + 1" s "s ! startPos"]
  by (auto simp: parseStringToken_def Let_def split: prod.splits option.splits)

lemma parseIdentifierToken_advances: "startPos < snd (parseIdentifierToken s startPos)"
  using scanWhile_ge[of startPos "\<lambda>c. \<not> isIdentifierStop c" s]
  by (auto simp: parseIdentifierToken_def Let_def)

lemma parseNumberToken_advances:
  "startPos < length s \<Longrightarrow> startPos < snd (parseNumberToken s startPos)"
  using parseIdentifierToken_advances[of startPos s] scanWhile_gt[of startPos s isDecimalRunChar]
  by (auto simp: parseNumberToken_def numberToken_def Let_def isDecimalRunChar_def scanWhile_less
      split: if_splits)

lemma stringStep_advances:
  "parseStringToken s pos = (token, newPos, b) \<Longrightarrow> pos < (if b then skipBadEscape s newPos else newPos)"
  using parseStringToken_advances[of s pos token newPos b] skipBadEscape_ge[of newPos s]
  by auto

lemma tokenizeStep_advances:
  assumes "pos < length s" shows "pos < snd (tokenizeStep s pos)"
proof -
  have str: "pos < snd (case parseStringToken s pos of
              (token, newPos, skippedBadEscape) \<Rightarrow>
                ([token], if skippedBadEscape then skipBadEscape s newPos else newPos))"
    using stringStep_advances[of s pos] by (auto split: prod.splits)
  have num: "pos < snd (case parseNumberToken s pos of (token, newPos) \<Rightarrow> (pushToken token, newPos))"
    using parseNumberToken_advances[OF assms] by (auto split: prod.splits)
  have ident: "pos < snd (case parseIdentifierToken s pos of (token, newPos) \<Rightarrow> (pushToken token, newPos))"
    using parseIdentifierToken_advances[of pos s] by (auto split: prod.splits)
  have cmt: "fst (skipComment s pos) \<longrightarrow> pos < snd (skipComment s pos)"
    using skipComment_advances[of s pos] by simp
  show ?thesis
    using str num ident cmt by (simp add: tokenizeStep_def Let_def)
qed

function tokenize_loop :: "jsstring \<Rightarrow> nat \<Rightarrow> Token list \<Rightarrow> Token list" where
  "tokenize_loop s pos tokens =
     (if pos < length s then
        (case tokenizeStep s pos of
           (pushed, newPos) \<Rightarrow> tokenize_loop s newPos (tokens @ pushed))
      else tokens)"
  by pat_completeness auto
termination
proof (relation "measure (\<lambda>(s, pos, tokens). length s - pos)")
  show "wf (measure (\<lambda>(s, pos, tokens). length s - pos))"
    by simp
next
  fix s :: jsstring and pos :: nat and tokens x :: "Token list" and pushed newPos
  assume "pos < length s" and "(pushed, newPos) = tokenizeStep s pos"
  then show "((s, newPos, tokens @ pushed), (s, pos, tokens))
               \<in> measure (\<lambda>(s, pos, tokens). length s - pos)"
    using tokenizeStep_advances[of pos s] by (auto dest: arg_cong[where f=snd])
qed

declare tokenize_loop.simps [simp del]

definition tokenize :: "jsstring \<Rightarrow> Token list" where
  "tokenize jsonString = tokenize_loop jsonString 0 []"

section \<open>Leaf decoding (parser, lines 347-442)\<close>

definition parseIdentifierValue :: "Token \<Rightarrow> jsval" where
  "parseIdentifierValue token =
     (let tokenValue = tvalue token;
          tokenValueLower = toLowerCase tokenValue
      in if has TRUE_ALIAS tokenValueLower then VBool True
         else if has FALSE_ALIAS tokenValueLower then VBool False
         else if has NULL_ALIAS tokenValueLower then VNull
         else if has UNDEFINED_ALIAS tokenValueLower then VUndefined
         else VString tokenValue)"

text \<open>
  The replacement of line 403: a control character becomes \<^verbatim>\<open>\u\<close> and the last four
  characters of \<^verbatim>\<open>'000'\<close> followed by its code in lower-case hexadecimal.
\<close>

definition hexChar :: "int \<Rightarrow> int" where
  "hexChar d = (if d < 10 then 48 + d else 87 + d)"

definition toString16 :: "int \<Rightarrow> jsstring" where
  "toString16 code = (if code < 16 then [hexChar code] else [hexChar (code div 16), hexChar (code mod 16)])"

definition escapeControl :: "int \<Rightarrow> jsstring" where
  "escapeControl c =
     (if 0 \<le> c \<and> c \<le> 31 then [BACKSLASH, 117] @ sliceLast 4 (js ''000'' @ toString16 c) else [c])"

definition parseStringValue :: "Token \<Rightarrow> error + jsstring" where
  "parseStringValue token = JSON_parse (concat (map escapeControl (tvalue token)))"

definition parseNumberValue :: "Token \<Rightarrow> jsnum" where
  "parseNumberValue token =
     (let numValue = tvalue token;
          v = (if radix token = Some RADIX_HEXADECIMAL then parseInt numValue 16
               else if radix token = Some RADIX_OCTAL then parseInt (drop 2 numValue) 8
               else if radix token = Some RADIX_BINARY then parseInt (drop 2 numValue) 2
               else parseFloat numValue)
      in if isNegative token then negate v else v)"

definition parseValueToken :: "Token \<Rightarrow> error + jsval" where
  "parseValueToken token =
     (case ttype token of
        IDENTIFIER \<Rightarrow> Inr (parseIdentifierValue token)
      | STRING \<Rightarrow> (case parseStringValue token of Inl e \<Rightarrow> Inl e | Inr str \<Rightarrow> Inr (VString str))
      | NUMBER \<Rightarrow> Inr (VNumber (parseNumberValue token))
      | _ \<Rightarrow> Inr VNull)"

section \<open>Containers and the store\<close>

text \<open>
  \<^verbatim>\<open>interface Container { type; value; _key? }\<close>. A container is created together with
  its \<^verbatim>\<open>value\<close> (an empty object for type \<^verbatim>\<open>'object'\<close>, an empty array for type
  \<^verbatim>\<open>'array'\<close>, lines 189-192 and 215-218), neither field is reassigned, and only an
  object container is ever given a \<^verbatim>\<open>_key\<close> (line 94). So a container is one of two
  variants, each holding the content of its value: the own properties of the object in
  creation order, its prototype (\<open>None\<close> while it is still the built-in one) and the pending
  key, or the elements of the array.

  Containers are shared: \<^verbatim>\<open>stacks\<close> and \<^verbatim>\<open>currentContainer\<close> refer to the container, and
  the value of the parent refers to its \<^verbatim>\<open>value\<close>. The store maps an address to the
  container allocated there; the address stands for the container and for its value
  (\<open>VRef\<close>), and addresses from \<open>nextId\<close> on are free.
\<close>

datatype ContainerType = OBJECT | ARRAY

datatype Container =
    ObjectContainer "(jsstring \<times> jsval) list" "jsval option" "jsstring option"
  | ArrayContainer "jsval list"

fun ctype :: "Container \<Rightarrow> ContainerType" where
  "ctype (ObjectContainer ps pr k) = OBJECT"
| "ctype (ArrayContainer xs) = ARRAY"

record pstate =
  store :: "nat \<Rightarrow> Container"
  nextId :: nat
  stacks :: "nat list"
  currentContainer :: "nat option"

subsection \<open>Assignment to a property of an object\<close>

text \<open>
  \<^verbatim>\<open>obj[k] = v\<close> on an ordinary object. An own property is overwritten where it stands. A
  new key becomes a new own property, the last in creation order, with one exception: the
  key \<^verbatim>\<open>__proto__\<close> is an accessor of the built-in \<^verbatim>\<open>Object.prototype\<close>, so as long as the
  object inherits it, the assignment calls its setter. The setter replaces the prototype
  when the value is an object or \<^verbatim>\<open>null\<close> (a cyclic chain is a \<^verbatim>\<open>TypeError\<close>) and does
  nothing otherwise; in neither case does the object get an own property. Every other
  inherited property is a writable data property and does not stop the assignment.

  The prototype chain runs through the store, so the two walks along it take fuel; the
  number of allocated addresses is enough for a chain without a cycle.
\<close>

definition PROTO :: jsstring where
  "PROTO = js ''__proto__''"

definition hasOwn :: "(jsstring \<times> jsval) list \<Rightarrow> jsstring \<Rightarrow> bool" where
  "hasOwn ps k \<longleftrightarrow> k \<in> set (map fst ps)"

fun inheritsProtoAccessor :: "nat \<Rightarrow> (nat \<Rightarrow> Container) \<Rightarrow> jsval option \<Rightarrow> bool" where
  "inheritsProtoAccessor n st None = True"
| "inheritsProtoAccessor 0 st (Some v) = False"
| "inheritsProtoAccessor (Suc n) st (Some (VRef a)) =
     (case st a of
        ArrayContainer xs \<Rightarrow> True
      | ObjectContainer ps pr k \<Rightarrow> \<not> hasOwn ps PROTO \<and> inheritsProtoAccessor n st pr)"
| "inheritsProtoAccessor (Suc n) st (Some v) = False"

fun protoChainHas :: "nat \<Rightarrow> (nat \<Rightarrow> Container) \<Rightarrow> jsval \<Rightarrow> nat \<Rightarrow> bool" where
  "protoChainHas 0 st v a = (v = VRef a)"
| "protoChainHas (Suc n) st (VRef b) a =
     (b = a \<or>
      (case st b of
         ObjectContainer ps (Some p) k \<Rightarrow> protoChainHas n st p a
       | _ \<Rightarrow> False))"
| "protoChainHas (Suc n) st v a = False"

definition objSet ::
  "nat \<Rightarrow> (nat \<Rightarrow> Container) \<Rightarrow> nat \<Rightarrow> (jsstring \<times> jsval) list \<Rightarrow> jsval option \<Rightarrow>
   jsstring \<Rightarrow> jsval \<Rightarrow> error + ((jsstring \<times> jsval) list \<times> jsval option)" where
  "objSet fuel st a ps pr k v =
     (if hasOwn ps k \<or> k \<noteq> PROTO \<or> \<not> inheritsProtoAccessor fuel st pr
      then Inr (AList.update k v ps, pr)
      else
        (case v of
           VNull \<Rightarrow> Inr (ps, Some VNull)
         | VRef b \<Rightarrow>
             if pr = Some (VRef b) then Inr (ps, pr)
             else if protoChainHas fuel st (VRef b) a then Inl TypeError
             else Inr (ps, Some (VRef b))
         | _ \<Rightarrow> Inr (ps, pr)))"

text \<open>
  \<^verbatim>\<open>c.value[key] = v; delete c._key\<close> for the object container at \<open>c\<close>, whose properties
  and prototype are \<open>ps\<close> and \<open>pr\<close>: the statement pair of lines 197-198, 223-224, 328-329,
  337-338, 457-458 and 483-484.
\<close>

definition assignKey ::
  "pstate \<Rightarrow> nat \<Rightarrow> (jsstring \<times> jsval) list \<Rightarrow> jsval option \<Rightarrow> jsstring \<Rightarrow> jsval \<Rightarrow> error + pstate" where
  "assignKey s c ps pr k v =
     (case objSet (nextId s) (store s) c ps pr k v of
        Inl e \<Rightarrow> Inl e
      | Inr (ps', pr') \<Rightarrow> Inr (s\<lparr>store := (store s)(c := ObjectContainer ps' pr' None)\<rparr>))"

text \<open>\<^verbatim>\<open>c.value.push(v)\<close> for the array container at \<open>c\<close> with elements \<open>xs\<close>.\<close>

definition push :: "pstate \<Rightarrow> nat \<Rightarrow> jsval list \<Rightarrow> jsval \<Rightarrow> pstate" where
  "push s c xs v = s\<lparr>store := (store s)(c := ArrayContainer (xs @ [v]))\<rparr>"

section \<open>The parser (\<^verbatim>\<open>parse\<close> and its helpers)\<close>

text \<open>
  The result objects of the helpers carry one outcome each; they are datatypes with one
  constructor per outcome. An absent \<^verbatim>\<open>newContainer\<close> is \<open>None\<close>, an absent \<^verbatim>\<open>skipNext\<close>
  is \<open>False\<close>.
\<close>

datatype BracketResult = BReturn jsval | BContinue "nat option" bool
datatype KeyResult = IsKey jsstring | KShouldContinue | KShouldThrow
datatype PunctuationResult = PShouldThrow | PShouldContinue
datatype AssignResult = AReturn jsval | AContinue bool

text \<open>Lines 195-202 and 221-228: the new value is added to the parent container.\<close>

definition linkToParent :: "pstate \<Rightarrow> jsval \<Rightarrow> error + pstate" where
  "linkToParent s v =
     (case currentContainer s of
        None \<Rightarrow> Inr s
      | Some c \<Rightarrow>
          (case store s c of
             ObjectContainer ps pr (Some k) \<Rightarrow> assignKey s c ps pr k v
           | ObjectContainer ps pr None \<Rightarrow> Inr s
           | ArrayContainer xs \<Rightarrow> Inr (push s c xs v)))"

definition createObjectContainer :: "pstate \<Rightarrow> error + (BracketResult \<times> pstate)" where
  "createObjectContainer s =
     (let newContainer = nextId s;
          s1 = s\<lparr>store := (store s)(newContainer := ObjectContainer [] None None),
                 nextId := Suc newContainer\<rparr>
      in case linkToParent s1 (VRef newContainer) of
           Inl e \<Rightarrow> Inl e
         | Inr s2 \<Rightarrow>
             Inr (BContinue (Some newContainer) False, s2\<lparr>stacks := stacks s2 @ [newContainer]\<rparr>))"

definition createArrayContainer :: "pstate \<Rightarrow> error + (BracketResult \<times> pstate)" where
  "createArrayContainer s =
     (let newContainer = nextId s;
          s1 = s\<lparr>store := (store s)(newContainer := ArrayContainer []),
                 nextId := Suc newContainer\<rparr>
      in case linkToParent s1 (VRef newContainer) of
           Inl e \<Rightarrow> Inl e
         | Inr s2 \<Rightarrow>
             Inr (BContinue (Some newContainer) False, s2\<lparr>stacks := stacks s2 @ [newContainer]\<rparr>))"

text \<open>\<^verbatim>\<open>index + 1 < tokenLength && tokens[index + 1].value === ','\<close>.\<close>

definition nextIsComma :: "Token list \<Rightarrow> nat \<Rightarrow> bool" where
  "nextIsComma tokens index \<longleftrightarrow> index + 1 < length tokens \<and> tvalue (tokens ! (index + 1)) = js '',''"

definition closeContainer ::
  "pstate \<Rightarrow> Token list \<Rightarrow> nat \<Rightarrow> error \<Rightarrow> error + (BracketResult \<times> pstate)" where
  "closeContainer s tokens index errorMessage =
     (if length (stacks s) > 0 then
        let completedContainer = last (stacks s);
            s' = s\<lparr>stacks := butlast (stacks s)\<rparr>
        in if length (stacks s') > 0
           then Inr (BContinue (Some (last (stacks s'))) (nextIsComma tokens index), s')
           else Inr (BReturn (VRef completedContainer), s')
      else Inl errorMessage)"

definition handleBracketToken ::
  "Token \<Rightarrow> pstate \<Rightarrow> Token list \<Rightarrow> nat \<Rightarrow> error + (BracketResult \<times> pstate)" where
  "handleBracketToken token s tokens index =
     (if tvalue token = js ''{'' then createObjectContainer s
      else if tvalue token = js ''}'' then closeContainer s tokens index UnmatchedClosingBrace
      else if tvalue token = js ''['' then createArrayContainer s
      else if tvalue token = js '']'' then closeContainer s tokens index UnmatchedClosingBracket
      else Inr (BContinue None False, s))"

definition handleObjectKey :: "Token \<Rightarrow> error + KeyResult" where
  "handleObjectKey token =
     (case ttype token of
        STRING \<Rightarrow> (case parseStringValue token of Inl e \<Rightarrow> Inl e | Inr k \<Rightarrow> Inr (IsKey k))
      | NUMBER \<Rightarrow>
          if isNegative token then Inr (IsKey (js ''-'' @ tvalue token))
          else if isPositive token then Inr (IsKey (js ''+'' @ tvalue token))
          else Inr (IsKey (tvalue token))
      | IDENTIFIER \<Rightarrow> Inr (IsKey (tvalue token))
      | PUNCTUATION \<Rightarrow>
          if tvalue token = js '','' then Inr KShouldContinue else Inr KShouldThrow
      | _ \<Rightarrow> Inr KShouldThrow)"

text \<open>Lines 325-330 and 334-339: a pending key of the current object gets \<^verbatim>\<open>null\<close>.\<close>

definition resolvePendingKey :: "pstate \<Rightarrow> error + pstate" where
  "resolvePendingKey s =
     (case currentContainer s of
        None \<Rightarrow> Inr s
      | Some c \<Rightarrow>
          (case store s c of
             ObjectContainer ps pr (Some k) \<Rightarrow> assignKey s c ps pr k VNull
           | _ \<Rightarrow> Inr s))"

definition handlePunctuationToken ::
  "Token \<Rightarrow> Token list \<Rightarrow> nat \<Rightarrow> pstate \<Rightarrow> error + (PunctuationResult \<times> pstate)" where
  "handlePunctuationToken token tokens index s =
     (if length (stacks s) = 0 then Inr (PShouldThrow, s)
      else if tvalue token = js '','' then
        (case currentContainer s of
           None \<Rightarrow> Inr (PShouldContinue, s)
         | Some c \<Rightarrow>
             (case store s c of
                ArrayContainer xs \<Rightarrow> Inr (PShouldContinue, push s c xs VNull)
              | _ \<Rightarrow> Inr (PShouldContinue, s)))
      else if tvalue token = js '':'' then
        (if index + 1 < length tokens then
           (let nextToken = tokens ! (index + 1)
            in if tvalue nextToken = js '','' \<or> tvalue nextToken = js ''}'' then
                 (case resolvePendingKey s of
                    Inl e \<Rightarrow> Inl e
                  | Inr s' \<Rightarrow> Inr (PShouldContinue, s'))
               else Inr (PShouldContinue, s))
         else
           (case resolvePendingKey s of
              Inl e \<Rightarrow> Inl e
            | Inr s' \<Rightarrow> Inr (PShouldContinue, s')))
      else Inr (PShouldContinue, s))"

text \<open>
  In line 457 the key is \<^verbatim>\<open>currentContainer._key\<close> whatever it is; an absent key would be
  converted to the property name \<^verbatim>\<open>undefined\<close>.
\<close>

definition assignValue ::
  "jsval \<Rightarrow> pstate \<Rightarrow> Token list \<Rightarrow> nat \<Rightarrow> error + (AssignResult \<times> pstate)" where
  "assignValue v s tokens index =
     (case currentContainer s of
        Some c \<Rightarrow>
          (case store s c of
             ObjectContainer ps pr k \<Rightarrow>
               (case assignKey s c ps pr (case k of None \<Rightarrow> js ''undefined'' | Some k' \<Rightarrow> k') v of
                  Inl e \<Rightarrow> Inl e
                | Inr s' \<Rightarrow> Inr (AContinue (nextIsComma tokens index), s'))
           | ArrayContainer xs \<Rightarrow> Inr (AContinue (nextIsComma tokens index), push s c xs v))
      | None \<Rightarrow> Inr (AReturn v, s))"

definition handleUnclosedContainers :: "pstate \<Rightarrow> error + (jsval \<times> pstate)" where
  "handleUnclosedContainers s =
     (if length (stacks s) > 0 then
        (case resolvePendingKey s of
           Inl e \<Rightarrow> Inl e
         | Inr s' \<Rightarrow> Inr (VRef (hd (stacks s')), s'))
      else Inr (VUndefined, s))"

subsection \<open>The loop of \<^verbatim>\<open>parse\<close>\<close>

text \<open>
  One run of the loop body at index \<open>i\<close> (lines 66-151) returns from \<^verbatim>\<open>parse\<close>, throws,
  or reaches the end of the body or a \<^verbatim>\<open>continue\<close> with a new state and a value of \<open>i\<close>,
  which the loop header then increments.
\<close>

datatype Step = Return jsval pstate | Next pstate nat

text \<open>Line 88-90: the current container is an object that waits for a key.\<close>

definition expectsKey :: "pstate \<Rightarrow> bool" where
  "expectsKey s =
     (case currentContainer s of
        None \<Rightarrow> False
      | Some c \<Rightarrow> (case store s c of ObjectContainer ps pr None \<Rightarrow> True | _ \<Rightarrow> False))"

text \<open>Line 94: \<^verbatim>\<open>currentContainer._key = keyResult.key\<close>.\<close>

definition setKey :: "pstate \<Rightarrow> jsstring \<Rightarrow> pstate" where
  "setKey s k =
     (case currentContainer s of
        None \<Rightarrow> s
      | Some c \<Rightarrow>
          (case store s c of
             ObjectContainer ps pr old \<Rightarrow> s\<lparr>store := (store s)(c := ObjectContainer ps pr (Some k))\<rparr>
           | ArrayContainer xs \<Rightarrow> s))"

text \<open>
  Lines 117-140: the value of the token at \<open>i\<close>, and the index of the last token it used. A
  run of IDENTIFIER tokens inside a container is one string.
\<close>

definition tokenValue :: "Token list \<Rightarrow> pstate \<Rightarrow> nat \<Rightarrow> error + (jsval \<times> nat)" where
  "tokenValue tokens s i =
     (let token = tokens ! i
      in if ttype token = IDENTIFIER \<and> currentContainer s \<noteq> None then
           (let identifierValues =
                  tvalue token #
                  map tvalue (takeWhile (\<lambda>t. ttype t = IDENTIFIER) (drop (i + 1) tokens));
                j = i + length identifierValues
            in if length identifierValues > 1 then Inr (VString (joinSpace identifierValues), j - 1)
               else (case parseValueToken token of Inl e \<Rightarrow> Inl e | Inr v \<Rightarrow> Inr (v, i)))
         else (case parseValueToken token of Inl e \<Rightarrow> Inl e | Inr v \<Rightarrow> Inr (v, i)))"

definition loopBody :: "Token list \<Rightarrow> pstate \<Rightarrow> nat \<Rightarrow> error + Step" where
  "loopBody tokens s i =
     (let token = tokens ! i
      in if ttype token = BRACKET then
           (case handleBracketToken token s tokens i of
              Inl e \<Rightarrow> Inl e
            | Inr (BReturn v, s') \<Rightarrow> Inr (Return v s')
            | Inr (BContinue newContainer skipNext, s') \<Rightarrow>
                Inr (Next (case newContainer of
                             None \<Rightarrow> s'
                           | Some c \<Rightarrow> s'\<lparr>currentContainer := Some c\<rparr>)
                          (if skipNext then i + 1 else i)))
         else if expectsKey s then
           (case handleObjectKey token of
              Inl e \<Rightarrow> Inl e
            | Inr (IsKey k) \<Rightarrow> Inr (Next (setKey s k) i)
            | Inr KShouldContinue \<Rightarrow> Inr (Next s i)
            | Inr KShouldThrow \<Rightarrow> Inl (UnexpectedKeyToken (tvalue token)))
         else if ttype token = PUNCTUATION then
           (case handlePunctuationToken token tokens i s of
              Inl e \<Rightarrow> Inl e
            | Inr (PShouldThrow, s') \<Rightarrow> Inl UnexpectedPunctuation
            | Inr (PShouldContinue, s') \<Rightarrow> Inr (Next s' i))
         else
           (case tokenValue tokens s i of
              Inl e \<Rightarrow> Inl e
            | Inr (v, i') \<Rightarrow>
                (case assignValue v s tokens i' of
                   Inl e \<Rightarrow> Inl e
                 | Inr (AReturn r, s') \<Rightarrow> Inr (Return r s')
                 | Inr (AContinue skipNext, s') \<Rightarrow> Inr (Next s' (if skipNext then i' + 1 else i')))))"

lemma tokenValue_index: "tokenValue tokens s i = Inr (v, i') \<Longrightarrow> i \<le> i'"
  by (auto simp: tokenValue_def Let_def split: if_splits sum.splits)

lemma loopBody_index: "loopBody tokens s i = Inr (Next s' i') \<Longrightarrow> i \<le> i'"
  by (auto simp: loopBody_def Let_def split: if_splits sum.splits prod.splits BracketResult.splits
        KeyResult.splits PunctuationResult.splits AssignResult.splits dest: tokenValue_index)

function parse_loop :: "Token list \<Rightarrow> pstate \<Rightarrow> nat \<Rightarrow> error + (jsval \<times> pstate)" where
  "parse_loop tokens s i =
     (if i < length tokens then
        (case loopBody tokens s i of
           Inl e \<Rightarrow> Inl e
         | Inr (Return v s') \<Rightarrow> Inr (v, s')
         | Inr (Next s' i') \<Rightarrow> parse_loop tokens s' (i' + 1))
      else handleUnclosedContainers s)"
  by pat_completeness auto
termination
  by (relation "measure (\<lambda>(tokens, s, i). length tokens - i)")
     (auto dest: loopBody_index)

declare parse_loop.simps [simp del]

definition initialState :: pstate where
  "initialState =
     \<lparr>store = (\<lambda>a. ArrayContainer []), nextId = 0, stacks = [], currentContainer = None\<rparr>"

definition parse :: "Token list \<Rightarrow> error + (jsval \<times> pstate)" where
  "parse tokens = parse_loop tokens initialState 0"

subsection \<open>Reading a result off the store\<close>

text \<open>
  The value tree that a result denotes in a store: objects with their own properties in
  the order in which the language enumerates them (\<^verbatim>\<open>Object.keys\<close>, \<^verbatim>\<open>JSON.stringify\<close>),
  arrays with their elements. The enumeration lists the keys that are array indices first,
  in ascending order, and then the other keys in creation order; an array index is the
  decimal numeral, without a leading zero, of an integer from 0 to \<open>2 ^ 32 - 2\<close>. The fuel
  bounds the nesting depth; \<open>None\<close> means that it ran out.
\<close>

datatype tree =
    TUndefined
  | TNull
  | TBool bool
  | TNumber jsnum
  | TString jsstring
  | TArray "tree list"
  | TObject "(jsstring \<times> tree) list"

definition arrayIndex :: "jsstring \<Rightarrow> int option" where
  "arrayIndex k =
     (if k = [] \<or> \<not> list_all isDigit k then None
      else if hd k = 48 \<and> k \<noteq> [48] then None
      else if 10 < length k then None
      else (let n = int (digitsValue 10 k) in if n \<le> 4294967294 then Some n else None))"

definition ownEntries :: "(jsstring \<times> 'a) list \<Rightarrow> (jsstring \<times> 'a) list" where
  "ownEntries ps =
     map snd (sort_key fst
                (List.map_filter (\<lambda>(k, v). map_option (\<lambda>i. (i, (k, v))) (arrayIndex k)) ps))
     @ filter (\<lambda>(k, v). arrayIndex k = None) ps"

fun snapshot :: "nat \<Rightarrow> (nat \<Rightarrow> Container) \<Rightarrow> jsval \<Rightarrow> tree option" where
  "snapshot n st VUndefined = Some TUndefined"
| "snapshot n st VNull = Some TNull"
| "snapshot n st (VBool b) = Some (TBool b)"
| "snapshot n st (VNumber x) = Some (TNumber x)"
| "snapshot n st (VString x) = Some (TString x)"
| "snapshot 0 st (VRef a) = None"
| "snapshot (Suc n) st (VRef a) =
     (case st a of
        ArrayContainer xs \<Rightarrow> map_option TArray (those (map (snapshot n st) xs))
      | ObjectContainer ps pr k \<Rightarrow>
          map_option TObject
            (those (map (\<lambda>(key, v). map_option (Pair key) (snapshot n st v)) (ownEntries ps))))"

definition resultTree :: "error + (jsval \<times> pstate) \<Rightarrow> error + tree option" where
  "resultTree r =
     (case r of
        Inl e \<Rightarrow> Inl e
      | Inr (v, s) \<Rightarrow> Inr (snapshot (Suc (nextId s)) (store s) v))"

section \<open>Decoding a string\<close>

text \<open>\<^verbatim>\<open>parse(tokenize(jsonString))\<close>, lines 50-53 of \<^verbatim>\<open>lib/index.js\<close>.\<close>

definition decode :: "jsstring \<Rightarrow> error + (jsval \<times> pstate)" where
  "decode jsonString = parse (tokenize jsonString)"

definition decodeTree :: "jsstring \<Rightarrow> error + tree option" where
  "decodeTree jsonString = resultTree (decode jsonString)"

text \<open>
  The source keeps \<^verbatim>\<open>currentContainer\<close> equal to the top of \<^verbatim>\<open>stacks\<close>, and
  \<^verbatim>\<open>null\<close> while the stack is empty.
\<close>

definition topOfStack :: "pstate \<Rightarrow> bool" where
  "topOfStack s \<longleftrightarrow>
     currentContainer s = (if stacks s = [] then None else Some (last (stacks s)))"

text \<open>
  The container at the bottom of the stack is the first one that was allocated, and while the
  stack is empty nothing has been allocated.
\<close>

definition bottomIsFirst :: "pstate \<Rightarrow> bool" where
  "bottomIsFirst s \<longleftrightarrow> (if stacks s = [] then nextId s = 0 else hd (stacks s) = 0)"

text \<open>
  \<open>reaches tokens s i\<close>: on the token stream \<open>tokens\<close>, the loop of \<^verbatim>\<open>parse\<close> comes to
  its header with state \<open>s\<close> and index \<open>i\<close>.
\<close>

inductive reaches :: "Token list \<Rightarrow> pstate \<Rightarrow> nat \<Rightarrow> bool" for tokens where
  start: "reaches tokens initialState 0"
| step: "reaches tokens s i \<Longrightarrow> i < length tokens \<Longrightarrow> loopBody tokens s i = Inr (Next s' i')
         \<Longrightarrow> reaches tokens s' (i' + 1)"

section \<open>The strict decoder\<close>

text \<open>
  The strict decoder that decoding is compared with: JSON by its grammar (a value is an
  object, an array, a string, a number, \<^verbatim>\<open>true\<close>, \<^verbatim>\<open>false\<close> or \<^verbatim>\<open>null\<close>, with white space
  around the structural characters), an object decoded to an ordered mapping in insertion
  order in which a repeated key keeps its place and takes the later value, a number
  decoded to the number value of its numeral (the nearest binary64 float), a string by the
  escape rules of \<open>jsonStringBody\<close>. Anything else is rejected (\<open>None\<close>). The fuel of the
  three mutually recursive functions is the length of the text, which every call shortens.
\<close>

definition strictInt :: "jsstring \<Rightarrow> (jsstring \<times> jsstring) option" where
  "strictInt t =
     (case t of
        [] \<Rightarrow> None
      | c # r \<Rightarrow>
          if c = 48 then Some ([48], r)
          else if isDigit c then Some (takeWhile isDigit t, dropWhile isDigit t)
          else None)"

definition strictFrac :: "jsstring \<Rightarrow> (jsstring \<times> jsstring) option" where
  "strictFrac t =
     (case t of
        c # r \<Rightarrow>
          if c = 46 then
            (if takeWhile isDigit r = [] then None
             else Some (takeWhile isDigit r, dropWhile isDigit r))
          else Some ([], t)
      | [] \<Rightarrow> Some ([], t))"

definition strictExp :: "jsstring \<Rightarrow> (int \<times> jsstring) option" where
  "strictExp t =
     (case t of
        c # r \<Rightarrow>
          if c = 101 \<or> c = 69 then
            (let neg = (case r of g # _ \<Rightarrow> g = 45 | [] \<Rightarrow> False);
                 r1 = (case r of g # r' \<Rightarrow> if g = 45 \<or> g = 43 then r' else r | [] \<Rightarrow> r)
             in if takeWhile isDigit r1 = [] then None
                else Some ((if neg then - 1 else 1) * int (digitsValue 10 (takeWhile isDigit r1)),
                           dropWhile isDigit r1))
          else Some (0, t)
      | [] \<Rightarrow> Some (0, t))"

definition strictNumber :: "jsstring \<Rightarrow> (jsnum \<times> jsstring) option" where
  "strictNumber t =
     (let neg = (case t of c # _ \<Rightarrow> c = 45 | [] \<Rightarrow> False);
          t1 = (if neg then tl t else t)
      in case strictInt t1 of
           None \<Rightarrow> None
         | Some (ip, t2) \<Rightarrow>
             (case strictFrac t2 of
                None \<Rightarrow> None
              | Some (fp, t3) \<Rightarrow>
                  (case strictExp t3 of
                     None \<Rightarrow> None
                   | Some (e, t4) \<Rightarrow>
                       Some ((let m = toDouble (scale10 (of_nat (digitsValue 10 (ip @ fp)))
                                                  (e - int (length fp)))
                              in if neg then negate m else m), t4))))"

fun strictValue :: "nat \<Rightarrow> jsstring \<Rightarrow> (tree \<times> jsstring) option"
  and strictElements :: "nat \<Rightarrow> jsstring \<Rightarrow> tree list \<Rightarrow> (tree \<times> jsstring) option"
  and strictMembers :: "nat \<Rightarrow> jsstring \<Rightarrow> (jsstring \<times> tree) list \<Rightarrow> (tree \<times> jsstring) option"
where
  "strictValue 0 t = None"
| "strictValue (Suc n) t =
     (case dropWhile isJsonWhiteSpace t of
        [] \<Rightarrow> None
      | c # r \<Rightarrow>
          if c = 123 then
            (case dropWhile isJsonWhiteSpace r of
               [] \<Rightarrow> None
             | d # r' \<Rightarrow> if d = 125 then Some (TObject [], r') else strictMembers n r [])
          else if c = 91 then
            (case dropWhile isJsonWhiteSpace r of
               [] \<Rightarrow> None
             | d # r' \<Rightarrow> if d = 93 then Some (TArray [], r') else strictElements n r [])
          else if c = 34 then
            (case jsonStringBody r of None \<Rightarrow> None | Some (str, r') \<Rightarrow> Some (TString str, r'))
          else if take 4 (c # r) = js ''true'' then Some (TBool True, drop 4 (c # r))
          else if take 5 (c # r) = js ''false'' then Some (TBool False, drop 5 (c # r))
          else if take 4 (c # r) = js ''null'' then Some (TNull, drop 4 (c # r))
          else (case strictNumber (c # r) of None \<Rightarrow> None | Some (x, r') \<Rightarrow> Some (TNumber x, r')))"
| "strictElements 0 t acc = None"
| "strictElements (Suc n) t acc =
     (case strictValue n t of
        None \<Rightarrow> None
      | Some (v, r) \<Rightarrow>
          (case dropWhile isJsonWhiteSpace r of
             [] \<Rightarrow> None
           | c # r' \<Rightarrow>
               if c = 44 then strictElements n r' (acc @ [v])
               else if c = 93 then Some (TArray (acc @ [v]), r')
               else None))"
| "strictMembers 0 t acc = None"
| "strictMembers (Suc n) t acc =
     (case dropWhile isJsonWhiteSpace t of
        [] \<Rightarrow> None
      | q # r \<Rightarrow>
          if q = 34 then
            (case jsonStringBody r of
               None \<Rightarrow> None
             | Some (k, r1) \<Rightarrow>
                 (case dropWhile isJsonWhiteSpace r1 of
                    [] \<Rightarrow> None
                  | c # r2 \<Rightarrow>
                      if c = 58 then
                        (case strictValue n r2 of
                           None \<Rightarrow> None
                         | Some (v, r3) \<Rightarrow>
                             (case dropWhile isJsonWhiteSpace r3 of
                                [] \<Rightarrow> None
                              | d # r4 \<Rightarrow>
                                  if d = 44 then strictMembers n r4 (AList.update k v acc)
                                  else if d = 125 then Some (TObject (AList.update k v acc), r4)
                                  else None))
                      else None))
          else None)"

definition strictDecode :: "jsstring \<Rightarrow> tree option" where
  "strictDecode t =
     (case strictValue (Suc (length t)) t of
        None \<Rightarrow> None
      | Some (v, r) \<Rightarrow> if list_all isJsonWhiteSpace r then Some v else None)"

section \<open>Properties of the number model\<close>

text \<open>
  Rounding on some values: a tenth and a third are not binary64 floats, \<open>2 ^ 53 + 1\<close> lies
  halfway between two of them. What is \<open>2 ^ 1024\<close> or more becomes \<open>Infinity\<close>, and an integer
  below \<open>2 ^ 53\<close> is kept as it is.
\<close>

lemma toDouble_examples:
  "toDouble (1 / 10) = JNum (3602879701896397 / 36028797018963968)
   \<and> toDouble 9007199254740993 = JNum 9007199254740992
   \<and> toDouble 9007199254740995 = JNum 9007199254740996
   \<and> toDouble (1 / 3) = JNum (6004799503160661 / 18014398509481984)"
  by code_simp

lemma bitlen_above:
  fixes x :: int
  assumes "2 ^ n \<le> x"
  shows "int n < bitlen x"
proof -
  have pos: "0 < x"
    using assms by (auto intro: less_le_trans[of 0 "2 ^ n" x])
  have "x < 2 ^ nat (bitlen x)"
    using bitlen_bounds[OF pos] by simp
  then have "(2::int) ^ n < 2 ^ nat (bitlen x)"
    using assms by linarith
  then have "n < nat (bitlen x)"
    by simp
  then show ?thesis by simp
qed

lemma toDouble_overflow:
  assumes "2 ^ 1024 \<le> a"
  shows "toDouble a = PosInfinity"
proof -
  have "(1::rat) \<le> 2 ^ 1024"
    by (rule one_le_power) simp
  then have a1: "1 \<le> a"
    using assms by (rule order_trans)
  then have a0: "\<not> a \<le> 0"
    by simp
  have "of_int ((2::int) ^ 1024) \<le> a"
    using assms by (simp only: of_int_power of_int_numeral)
  then have "(2::int) ^ 1024 \<le> \<lfloor>a\<rfloor>"
    by (simp only: le_floor_iff)
  then have "int 1024 < bitlen \<lfloor>a\<rfloor>"
    by (rule bitlen_above)
  then have "1023 < binaryExponent a"
    using a1 by (simp add: binaryExponent_def)
  then show ?thesis
    using a0 by (simp add: toDouble_def Let_def)
qed

lemma parseFloat_overflow: "parseFloat (js ''2e308'') = PosInfinity"
proof -
  have "(2::rat) ^ 1024 \<le> 2 * 10 ^ 308"
    by simp
  then have "toDouble (scale10 2 308) = PosInfinity"
    by (intro toDouble_overflow) (simp add: scale10_def)
  moreover have "parseFloat (js ''2e308'') = toDouble (scale10 2 308)"
    by (simp add: parseFloat_def unsignedDecimal_def exponentPart_def js_def isWhiteSpace_def
        isDigit_def digitsValue_def digitValue_def Let_def)
  ultimately show ?thesis by simp
qed


lemma roundHalfEven_int: "roundHalfEven (of_int k) = k"
  by (simp add: roundHalfEven_def)

lemma pow2_nonpos: "p \<le> 0 \<Longrightarrow> pow2 p = 1 / 2 ^ nat (- p)"
  by (cases "p = 0") (simp_all add: pow2_def)

lemma bitlen_below:
  fixes x :: int
  assumes "0 < x" and "x < 2 ^ n"
  shows "bitlen x \<le> int n"
proof -
  have "2 ^ nat (bitlen x - 1) \<le> x"
    using bitlen_bounds[OF assms(1)] by simp
  then have "(2::int) ^ nat (bitlen x - 1) < 2 ^ n"
    using assms(2) by linarith
  then have "nat (bitlen x - 1) < n"
    by simp
  then show ?thesis by linarith
qed

lemma toDouble_integer:
  assumes "0 < n" and "n < 2 ^ 53"
  shows "toDouble (of_int n) = JNum (of_int n)"
proof -
  have b1: "bitlen n \<le> int 53"
    using assms by (rule bitlen_below)
  have b0: "0 < bitlen n"
    using assms(1) bitlen_nonneg[of n] bitlen_eq_zero_iff[of n] by linarith
  define p where "p = bitlen n - 53"
  define k where "k = nat (- p)"
  have p: "p \<le> 0" "- 1074 \<le> p"
    using b0 b1 by (simp_all add: p_def)
  have be: "binaryExponent (of_int n) = bitlen n - 1"
    using assms(1) by (simp add: binaryExponent_def)
  have mx: "max (binaryExponent (of_int n) - 52) (- 1074) = p"
    using p by (simp add: be p_def)
  have pw: "pow2 p = 1 / 2 ^ k"
    using p(1) by (simp add: pow2_nonpos k_def)
  have q: "of_int n / pow2 p = of_int (n * 2 ^ k)"
    by (simp add: pw)
  have m: "roundHalfEven (of_int n / pow2 p) = n * 2 ^ k"
    unfolding q by (rule roundHalfEven_int)
  have r: "of_int (n * 2 ^ k) * pow2 p = of_int n"
    by (simp add: pw)
  have n0: "\<not> (of_int n :: rat) \<le> 0"
    using assms(1) by simp
  show ?thesis
    unfolding toDouble_def Let_def mx m r using n0 p(1) by simp
qed

section \<open>Properties of the tokenizer\<close>

lemma scanReaches_scanString:
  "scanReaches s startPos q pos pos' \<Longrightarrow> scanString s startPos q pos = scanString s startPos q pos'"
proof (induction rule: scanReaches.induct)
  case (here pos)
  show ?case by simp
next
  case (escape pos pos')
  then show ?case by (subst scanString.simps) (simp add: Let_def)
next
  case (newline pos pos')
  then show ?case by (subst scanString.simps) (auto simp: Let_def)
next
  case (other pos pos')
  then show ?case by (subst scanString.simps) (simp add: Let_def)
qed

lemma scanReaches_le: "scanReaches s startPos q pos pos' \<Longrightarrow> pos \<le> pos'"
  by (induction rule: scanReaches.induct) auto

lemma matchEscapedQuote_Some:
  assumes "matchEscapedQuote b = Some index"
  shows "(index + 3 = length b \<and> b ! index = BACKSLASH \<and> isQuote (b ! (index + 1))
            \<and> (b ! (index + 2) = ch CHR '','' \<or> b ! (index + 2) = ch CHR '':''))
       \<or> (index + 2 = length b \<and> b ! index = BACKSLASH \<and> isQuote (b ! (index + 1)))"
proof (cases "3 \<le> length b \<and> b ! (length b - 3) = BACKSLASH \<and> isQuote (b ! (length b - 2))
            \<and> (b ! (length b - 1) = ch CHR '','' \<or> b ! (length b - 1) = ch CHR '':'')")
  case True
  then have i: "index = length b - 3"
    using assms by (simp add: matchEscapedQuote_def Let_def)
  have "index + 1 = length b - 2" "index + 2 = length b - 1" "index + 3 = length b"
    using True i by auto
  then show ?thesis using True i by simp
next
  case False
  then have c: "2 \<le> length b \<and> b ! (length b - 2) = BACKSLASH \<and> isQuote (b ! (length b - 1))"
     and i: "index = length b - 2"
    using assms by (auto simp: matchEscapedQuote_def Let_def split: if_splits)
  have "index + 1 = length b - 1" "index + 2 = length b"
    using c i by auto
  then show ?thesis using c i by simp
qed

lemma slice_nth: "a + j < b \<Longrightarrow> b \<le> length s \<Longrightarrow> slice s a b ! j = s ! (a + j)"
  by (simp add: slice_def)

lemma slice_length: "b \<le> length s \<Longrightarrow> length (slice s a b) = b - a"
  by (simp add: slice_def)

section \<open>Properties of the parser\<close>

subsection \<open>What the helpers leave unchanged\<close>

lemma assignKey_frame:
  "assignKey s c ps pr k v = Inr s' \<Longrightarrow>
     stacks s' = stacks s \<and> currentContainer s' = currentContainer s \<and> nextId s' = nextId s"
  by (auto simp: assignKey_def split: sum.splits)

lemma push_frame [simp]:
  "stacks (push s c xs v) = stacks s"
  "currentContainer (push s c xs v) = currentContainer s"
  "nextId (push s c xs v) = nextId s"
  by (simp_all add: push_def)

lemma setKey_frame [simp]:
  "stacks (setKey s k) = stacks s"
  "currentContainer (setKey s k) = currentContainer s"
  "nextId (setKey s k) = nextId s"
  by (simp_all add: setKey_def split: option.splits Container.splits)

lemma linkToParent_frame:
  "linkToParent s v = Inr s' \<Longrightarrow>
     stacks s' = stacks s \<and> currentContainer s' = currentContainer s \<and> nextId s' = nextId s"
  by (auto simp: linkToParent_def split: option.splits Container.splits dest: assignKey_frame)

lemma resolvePendingKey_frame:
  "resolvePendingKey s = Inr s' \<Longrightarrow>
     stacks s' = stacks s \<and> currentContainer s' = currentContainer s \<and> nextId s' = nextId s"
  by (auto simp: resolvePendingKey_def split: option.splits Container.splits dest: assignKey_frame)

lemma handlePunctuationToken_frame:
  "handlePunctuationToken token tokens i s = Inr (r, s') \<Longrightarrow>
     stacks s' = stacks s \<and> currentContainer s' = currentContainer s \<and> nextId s' = nextId s"
  by (auto simp: handlePunctuationToken_def Let_def
      split: if_splits option.splits Container.splits sum.splits dest: resolvePendingKey_frame)

lemma assignValue_frame:
  "assignValue v s tokens i = Inr (r, s') \<Longrightarrow>
     stacks s' = stacks s \<and> currentContainer s' = currentContainer s \<and> nextId s' = nextId s"
  by (auto simp: assignValue_def split: option.splits Container.splits sum.splits dest: assignKey_frame)

lemma createObjectContainer_result:
  "createObjectContainer s = Inr (r, s') \<Longrightarrow>
     r = BContinue (Some (nextId s)) False \<and> stacks s' = stacks s @ [nextId s]
     \<and> nextId s' = Suc (nextId s)"
  by (auto simp: createObjectContainer_def Let_def split: sum.splits dest!: linkToParent_frame)

lemma createArrayContainer_result:
  "createArrayContainer s = Inr (r, s') \<Longrightarrow>
     r = BContinue (Some (nextId s)) False \<and> stacks s' = stacks s @ [nextId s]
     \<and> nextId s' = Suc (nextId s)"
  by (auto simp: createArrayContainer_def Let_def split: sum.splits dest!: linkToParent_frame)

lemma closeContainer_result:
  "closeContainer s tokens i e = Inr (BContinue nc skip, s') \<Longrightarrow>
     stacks s' = butlast (stacks s) \<and> stacks s' \<noteq> [] \<and> nc = Some (last (stacks s'))"
  by (auto simp: closeContainer_def Let_def split: if_splits)

lemma handleBracketToken_topOfStack:
  assumes "handleBracketToken token s tokens i = Inr (BContinue nc skip, s')" "topOfStack s"
  shows "topOfStack (case nc of None \<Rightarrow> s' | Some c \<Rightarrow> s'\<lparr>currentContainer := Some c\<rparr>)"
  using assms
  by (auto simp: handleBracketToken_def topOfStack_def split: if_splits
      dest!: createObjectContainer_result createArrayContainer_result closeContainer_result)

lemma loopBody_frame:
  assumes "ttype (tokens ! i) \<noteq> BRACKET" "loopBody tokens s i = Inr (Next s' i')"
  shows "stacks s' = stacks s \<and> currentContainer s' = currentContainer s \<and> nextId s' = nextId s"
proof (cases "expectsKey s")
  case True
  then show ?thesis
    using assms by (auto simp: loopBody_def Let_def split: sum.splits KeyResult.splits)
next
  case nokey: False
  show ?thesis
  proof (cases "ttype (tokens ! i) = PUNCTUATION")
    case True
    then show ?thesis
      using assms nokey
      by (auto simp: loopBody_def Let_def split: sum.splits prod.splits PunctuationResult.splits
          dest!: handlePunctuationToken_frame)
  next
    case False
    then show ?thesis
      using assms nokey
      by (auto simp: loopBody_def Let_def split: sum.splits prod.splits AssignResult.splits
          dest!: assignValue_frame)
  qed
qed

lemma loopBody_topOfStack:
  assumes "loopBody tokens s i = Inr (Next s' i')" "topOfStack s"
  shows "topOfStack s'"
proof (cases "ttype (tokens ! i) = BRACKET")
  case True
  then show ?thesis
    using assms handleBracketToken_topOfStack[of "tokens ! i" s tokens i]
    by (auto simp: loopBody_def Let_def split: sum.splits prod.splits BracketResult.splits)
next
  case False
  then show ?thesis
    using assms loopBody_frame[of tokens i s s' i'] by (simp add: topOfStack_def)
qed

lemma reaches_topOfStack: "reaches tokens s i \<Longrightarrow> topOfStack s"
  by (induction rule: reaches.induct)
     (auto simp: topOfStack_def initialState_def dest: loopBody_topOfStack[unfolded topOfStack_def])

lemma reaches_parse: "reaches tokens s i \<Longrightarrow> parse tokens = parse_loop tokens s i"
proof (induction rule: reaches.induct)
  case start
  show ?case by (simp add: parse_def)
next
  case (step s i s' i')
  then show ?case by (simp add: parse_loop.simps[of tokens s i])
qed

subsection \<open>Assignments\<close>

lemma objSet_null:
  "\<exists>ps' pr'. objSet n st a ps pr k VNull = Inr (ps', pr')
     \<and> (k \<noteq> PROTO \<longrightarrow> ps' = AList.update k VNull ps \<and> pr' = pr)"
  by (simp add: objSet_def)

lemma assignKey_null:
  "\<exists>ps' pr'. objSet (nextId s) (store s) c ps pr k VNull = Inr (ps', pr')
     \<and> (k \<noteq> PROTO \<longrightarrow> ps' = AList.update k VNull ps \<and> pr' = pr)
     \<and> assignKey s c ps pr k VNull = Inr (s\<lparr>store := (store s)(c := ObjectContainer ps' pr' None)\<rparr>)"
  using objSet_null[of "nextId s" "store s" c ps pr k] by (auto simp: assignKey_def)

lemma update_present_entry:
  "k \<in> set (map fst ps) \<Longrightarrow> distinct (map fst ps) \<Longrightarrow>
     filter (\<lambda>e. fst e = k) (AList.update k v ps) = [(k, v)]"
proof (induction ps)
  case Nil
  then show ?case by simp
next
  case (Cons p ps)
  show ?case
  proof (cases "fst p = k")
    case True
    then have "k \<notin> set (map fst ps)" using Cons.prems(2) by auto
    then have "filter (\<lambda>e. fst e = k) ps = []" by (auto simp: filter_empty_conv)
    then show ?thesis using True by simp
  next
    case False
    then show ?thesis using Cons by auto
  qed
qed

lemma update_other_entries:
  "j < length ps \<Longrightarrow> fst (ps ! j) \<noteq> k \<Longrightarrow> AList.update k v ps ! j = ps ! j"
proof (induction ps arbitrary: j)
  case Nil
  then show ?case by simp
next
  case (Cons p ps)
  then show ?case by (cases j) auto
qed

subsection \<open>The bottom of the stack\<close>

lemma handleBracketToken_bottomIsFirst:
  assumes "handleBracketToken token s tokens i = Inr (BContinue nc skip, s')" "bottomIsFirst s"
  shows "bottomIsFirst s'"
  using assms
  by (auto simp: handleBracketToken_def bottomIsFirst_def hd_append split: if_splits
      dest!: createObjectContainer_result createArrayContainer_result closeContainer_result)
     (metis hd_append2 append_butlast_last_id butlast.simps(1))+

lemma loopBody_bottomIsFirst:
  assumes "loopBody tokens s i = Inr (Next s' i')" "bottomIsFirst s"
  shows "bottomIsFirst s'"
proof (cases "ttype (tokens ! i) = BRACKET")
  case True
  then show ?thesis
    using assms handleBracketToken_bottomIsFirst[of "tokens ! i" s tokens i]
    by (auto simp: loopBody_def Let_def bottomIsFirst_def
        split: sum.splits prod.splits BracketResult.splits option.splits)
next
  case False
  then show ?thesis
    using assms loopBody_frame[of tokens i s s' i'] by (simp add: bottomIsFirst_def)
qed

lemma reaches_bottomIsFirst: "reaches tokens s i \<Longrightarrow> bottomIsFirst s"
proof (induction rule: reaches.induct)
  case start
  show ?case by (simp add: bottomIsFirst_def initialState_def)
next
  case (step s i s' i')
  then show ?case using loopBody_bottomIsFirst by blast
qed

subsection \<open>Single values\<close>

lemma parse_single_value:
  assumes "ttype token \<noteq> BRACKET" and "ttype token \<noteq> PUNCTUATION"
    and "parseValueToken token = Inr v"
  shows "parse [token] = Inr (v, initialState)"
proof -
  have cc: "currentContainer initialState = None"
    by (simp add: initialState_def)
  have "loopBody [token] initialState 0 = Inr (Return v initialState)"
    using assms cc by (simp add: loopBody_def expectsKey_def tokenValue_def assignValue_def)
  then show ?thesis
    by (simp add: parse_def parse_loop.simps[of "[token]" initialState 0])
qed

lemma tokenValue_lone_identifier:
  assumes "i < length tokens" and "ttype (tokens ! i) = IDENTIFIER"
    and "i + 1 < length tokens \<longrightarrow> ttype (tokens ! (i + 1)) \<noteq> IDENTIFIER"
  shows "tokenValue tokens s i = Inr (parseIdentifierValue (tokens ! i), i)"
proof -
  have "takeWhile (\<lambda>t. ttype t = IDENTIFIER) (drop (i + 1) tokens) = []"
  proof (cases "drop (i + 1) tokens")
    case Nil
    then show ?thesis by simp
  next
    case (Cons t ts)
    then have "i + 1 < length tokens" by (cases "i + 1 < length tokens") auto
    then have "t = tokens ! (i + 1)"
      using Cons hd_drop_conv_nth[of "i + 1" tokens] by simp
    then show ?thesis
      using Cons assms(3) \<open>i + 1 < length tokens\<close> by simp
  qed
  then show ?thesis
    using assms(2) by (simp add: tokenValue_def parseValueToken_def Let_def)
qed

subsection \<open>Enumeration order\<close>

text \<open>
  Keys that are array indices come first in a decoded object, whatever the order in which
  they were stored: \<^verbatim>\<open>{"b":1,"2":2,"1":3}\<close> decodes to the object that lists 1, 2 and
  \<open>b\<close>. \<^verbatim>\<open>01\<close> and \<open>2 ^ 32 - 1\<close> are no array indices.
\<close>

lemma arrayIndex_examples:
  "arrayIndex (js ''0'') = Some 0 \<and> arrayIndex (js ''01'') = None
   \<and> arrayIndex (js ''4294967294'') = Some 4294967294 \<and> arrayIndex (js ''4294967295'') = None
   \<and> arrayIndex (js ''1e3'') = None \<and> arrayIndex [] = None"
  by (simp add: arrayIndex_def js_def isDigit_def digitsValue_def digitValue_def)

lemma index_keys_enumerate_first:
  "decodeTree (js ''{\"b\":1,\"2\":2,\"1\":3}'') =
     Inr (Some (TObject [(js ''1'', TNumber (JNum 3)), (js ''2'', TNumber (JNum 2)),
                         (js ''b'', TNumber (JNum 1))]))"
  by code_simp

section \<open>The claims\<close>

text \<open>
  C1 fails on the code. \<^verbatim>\<open>{"__proto__":1}\<close> is valid strict JSON, and a strict decoder
  gives the object with the one own property \<^verbatim>\<open>__proto__\<close> = 1. The parser stores a value
  with the assignment \<^verbatim>\<open>value[key] = v\<close> (line 457), which for the key \<^verbatim>\<open>__proto__\<close> calls
  the setter inherited from \<^verbatim>\<open>Object.prototype\<close>: the number is dropped and the result is
  the empty object. With an object as value the parser's result has no own property
  either.
\<close>

theorem proto_key_diverges_from_strict_decoder:
  "strictDecode (js ''{\"__proto__\":1}'') = Some (TObject [(js ''__proto__'', TNumber (JNum 1))])
   \<and> decodeTree (js ''{\"__proto__\":1}'') = Inr (Some (TObject []))
   \<and> strictDecode (js ''{\"__proto__\":{\"a\":1},\"b\":2}'') =
       Some (TObject [(js ''__proto__'', TObject [(js ''a'', TNumber (JNum 1))]),
                      (js ''b'', TNumber (JNum 2))])
   \<and> decodeTree (js ''{\"__proto__\":{\"a\":1},\"b\":2}'') =
       Inr (Some (TObject [(js ''b'', TNumber (JNum 2))]))"
  by code_simp

text \<open>
  C8. Whenever the loop of \<^verbatim>\<open>parse\<close> comes to a token with an empty container stack and
  that token is a closing bracket (\<^verbatim>\<open>}\<close> or \<^verbatim>\<open>]\<close>) or a punctuation token, \<^verbatim>\<open>parse\<close>
  throws: the result is an error and no value. The input \<^verbatim>\<open>}\<close> alone gives the error of
  an unmatched closing brace.
\<close>

theorem empty_stack_bracket_or_punctuation_throws:
  assumes "reaches tokens s i" and "i < length tokens" and "stacks s = []"
  shows "(ttype (tokens ! i) = BRACKET \<and> tvalue (tokens ! i) = js ''}''
            \<longrightarrow> parse tokens = Inl UnmatchedClosingBrace)
       \<and> (ttype (tokens ! i) = BRACKET \<and> tvalue (tokens ! i) = js '']''
            \<longrightarrow> parse tokens = Inl UnmatchedClosingBracket)
       \<and> (ttype (tokens ! i) = PUNCTUATION \<longrightarrow> parse tokens = Inl UnexpectedPunctuation)
       \<and> decodeTree (js ''}'') = Inl UnmatchedClosingBrace"
proof -
  have cur: "currentContainer s = None"
    using reaches_topOfStack[OF assms(1)] assms(3) by (simp add: topOfStack_def)
  have p: "parse tokens = (case loopBody tokens s i of
           Inl e \<Rightarrow> Inl e
         | Inr (Return v s') \<Rightarrow> Inr (v, s')
         | Inr (Next s' i') \<Rightarrow> parse_loop tokens s' (i' + 1))"
    using reaches_parse[OF assms(1)] assms(2) by (simp add: parse_loop.simps[of tokens s i])
  have a: "ttype (tokens ! i) = BRACKET \<and> tvalue (tokens ! i) = js ''}''
            \<longrightarrow> loopBody tokens s i = Inl UnmatchedClosingBrace"
    using assms(3) by (simp add: loopBody_def handleBracketToken_def closeContainer_def js_def)
  have b: "ttype (tokens ! i) = BRACKET \<and> tvalue (tokens ! i) = js '']''
            \<longrightarrow> loopBody tokens s i = Inl UnmatchedClosingBracket"
    using assms(3) by (simp add: loopBody_def handleBracketToken_def closeContainer_def js_def)
  have c: "ttype (tokens ! i) = PUNCTUATION \<longrightarrow> loopBody tokens s i = Inl UnexpectedPunctuation"
    using assms(3) cur by (simp add: loopBody_def expectsKey_def handlePunctuationToken_def)
  have d: "decodeTree (js ''}'') = Inl UnmatchedClosingBrace"
    by code_simp
  show ?thesis using a b c d p by simp
qed

theorem empty_stack_bracket_or_punctuation_throws_witness:
  "parse [mkToken BRACKET (js ''}'')] = Inl UnmatchedClosingBrace
   \<and> parse [mkToken PUNCTUATION (js '','')] = Inl UnexpectedPunctuation"
  using empty_stack_bracket_or_punctuation_throws[OF reaches.start, of "[mkToken BRACKET (js ''}'')]"]
    empty_stack_bracket_or_punctuation_throws[OF reaches.start, of "[mkToken PUNCTUATION (js '','')]"]
  by (simp add: initialState_def mkToken_def)

text \<open>
  C2. Whenever the loop of \<^verbatim>\<open>parse\<close> comes to a closing bracket token (\<^verbatim>\<open>}\<close> or \<^verbatim>\<open>]\<close>)
  with a non-empty stack, the innermost container is popped, whatever its shape and
  whichever of the two symbols closes it. If that empties the stack, \<^verbatim>\<open>parse\<close> returns
  the value of the popped container and reads no further token; otherwise the loop goes
  on with the new top of the stack as current container (and skips a comma that follows).
  The input \<^verbatim>\<open>{"a":[1}\<close> decodes to the object with the one property \<open>a\<close>, the array of 1.
\<close>

theorem closing_bracket_pops_innermost:
  assumes "reaches tokens s i" and "i < length tokens" and "ttype (tokens ! i) = BRACKET"
    and "tvalue (tokens ! i) = js ''}'' \<or> tvalue (tokens ! i) = js '']''"
    and "stacks s \<noteq> []"
  shows "(butlast (stacks s) = [] \<longrightarrow>
            parse tokens = Inr (VRef (last (stacks s)), s\<lparr>stacks := []\<rparr>))
       \<and> (butlast (stacks s) \<noteq> [] \<longrightarrow>
            loopBody tokens s i =
              Inr (Next (s\<lparr>stacks := butlast (stacks s),
                           currentContainer := Some (last (butlast (stacks s)))\<rparr>)
                        (if nextIsComma tokens i then i + 1 else i)))
       \<and> decodeTree (js ''{\"a\":[1}'') =
            Inr (Some (TObject [(js ''a'', TArray [TNumber (JNum 1)])]))"
proof -
  have p: "parse tokens = (case loopBody tokens s i of
           Inl e \<Rightarrow> Inl e
         | Inr (Return v s') \<Rightarrow> Inr (v, s')
         | Inr (Next s' i') \<Rightarrow> parse_loop tokens s' (i' + 1))"
    using reaches_parse[OF assms(1)] assms(2) by (simp add: parse_loop.simps[of tokens s i])
  have close: "handleBracketToken (tokens ! i) s tokens i =
      (if butlast (stacks s) = [] then Inr (BReturn (VRef (last (stacks s))), s\<lparr>stacks := []\<rparr>)
       else Inr (BContinue (Some (last (butlast (stacks s)))) (nextIsComma tokens i),
                 s\<lparr>stacks := butlast (stacks s)\<rparr>))"
    using assms(4,5) by (auto simp: handleBracketToken_def closeContainer_def Let_def js_def)
  have a: "butlast (stacks s) = [] \<longrightarrow>
            loopBody tokens s i = Inr (Return (VRef (last (stacks s))) (s\<lparr>stacks := []\<rparr>))"
    using assms(3) close by (simp add: loopBody_def)
  have b: "butlast (stacks s) \<noteq> [] \<longrightarrow>
            loopBody tokens s i =
              Inr (Next (s\<lparr>stacks := butlast (stacks s),
                           currentContainer := Some (last (butlast (stacks s)))\<rparr>)
                        (if nextIsComma tokens i then i + 1 else i))"
    using assms(3) close by (simp add: loopBody_def)
  have c: "decodeTree (js ''{\"a\":[1}'') =
            Inr (Some (TObject [(js ''a'', TArray [TNumber (JNum 1)])]))"
    by code_simp
  show ?thesis using a b c p by simp
qed

theorem closing_bracket_pops_innermost_witness:
  "parse [mkToken BRACKET (js ''{''), mkToken BRACKET (js '']''), mkToken BRACKET (js ''['')] =
     Inr (VRef 0,
          \<lparr>store = (\<lambda>a. ArrayContainer [])(0 := ObjectContainer [] None None),
           nextId = 1, stacks = [], currentContainer = Some 0\<rparr>)"
proof -
  let ?tokens = "[mkToken BRACKET (js ''{''), mkToken BRACKET (js '']''), mkToken BRACKET (js ''['')]"
  let ?s1 = "\<lparr>store = (\<lambda>a. ArrayContainer [])(0 := ObjectContainer [] None None),
           nextId = 1, stacks = [0], currentContainer = Some 0\<rparr>"
  have "loopBody ?tokens initialState 0 = Inr (Next ?s1 0)"
    by (simp add: loopBody_def handleBracketToken_def createObjectContainer_def linkToParent_def
        initialState_def mkToken_def js_def Let_def)
  then have r: "reaches ?tokens ?s1 1"
    using reaches.step[OF reaches.start, of ?tokens ?s1 0] by simp
  show ?thesis
    using closing_bracket_pops_innermost[OF r] by (simp add: mkToken_def js_def)
qed

text \<open>
  The end of the token stream. When the loop of \<^verbatim>\<open>parse\<close> comes to the end of the stream
  with containers still open, \<^verbatim>\<open>parse\<close> returns the value of the container at the bottom
  of the stack, which is the first container that was created (address 0); before that, a
  pending key of the innermost container is assigned \<^verbatim>\<open>null\<close> with \<^verbatim>\<open>value[key] = null\<close>
  and cleared, and nothing else changes. For a key other than \<^verbatim>\<open>__proto__\<close> the assignment
  makes or overwrites the own property of that name. With an empty stack at the end the
  result is \<^verbatim>\<open>undefined\<close>; so it is for the empty stream. \<^verbatim>\<open>{\<close> alone decodes to the
  empty object.
\<close>

theorem end_of_input_closes_containers:
  assumes "reaches tokens s i" and "length tokens \<le> i"
  shows "(stacks s = [] \<longrightarrow> parse tokens = Inr (VUndefined, s))
       \<and> (stacks s \<noteq> [] \<longrightarrow> hd (stacks s) = 0
            \<and> (\<forall>ps pr k. store s (last (stacks s)) = ObjectContainer ps pr (Some k) \<longrightarrow>
                 (\<exists>ps' pr'. objSet (nextId s) (store s) (last (stacks s)) ps pr k VNull = Inr (ps', pr')
                    \<and> (k \<noteq> PROTO \<longrightarrow> ps' = AList.update k VNull ps \<and> pr' = pr)
                    \<and> parse tokens =
                        Inr (VRef (hd (stacks s)),
                             s\<lparr>store := (store s)(last (stacks s) := ObjectContainer ps' pr' None)\<rparr>)))
            \<and> (\<forall>ps pr. store s (last (stacks s)) = ObjectContainer ps pr None \<longrightarrow>
                 parse tokens = Inr (VRef (hd (stacks s)), s))
            \<and> (\<forall>xs. store s (last (stacks s)) = ArrayContainer xs \<longrightarrow>
                 parse tokens = Inr (VRef (hd (stacks s)), s)))
       \<and> parse [] = Inr (VUndefined, initialState)
       \<and> decodeTree (js ''{'') = Inr (Some (TObject []))
       \<and> decodeTree (js '''') = Inr (Some TUndefined)"
proof -
  have p: "parse tokens = handleUnclosedContainers s"
    using reaches_parse[OF assms(1)] assms(2) by (simp add: parse_loop.simps[of tokens s i])
  have cur: "stacks s \<noteq> [] \<longrightarrow> currentContainer s = Some (last (stacks s))"
    using reaches_topOfStack[OF assms(1)] by (simp add: topOfStack_def)
  have bot: "stacks s \<noteq> [] \<longrightarrow> hd (stacks s) = 0"
    using reaches_bottomIsFirst[OF assms(1)] by (simp add: bottomIsFirst_def)
  have a: "stacks s = [] \<longrightarrow> parse tokens = Inr (VUndefined, s)"
    by (simp add: p handleUnclosedContainers_def)
  have b: "stacks s \<noteq> [] \<longrightarrow>
      (\<forall>ps pr k. store s (last (stacks s)) = ObjectContainer ps pr (Some k) \<longrightarrow>
         (\<exists>ps' pr'. objSet (nextId s) (store s) (last (stacks s)) ps pr k VNull = Inr (ps', pr')
            \<and> (k \<noteq> PROTO \<longrightarrow> ps' = AList.update k VNull ps \<and> pr' = pr)
            \<and> parse tokens =
                Inr (VRef (hd (stacks s)),
                     s\<lparr>store := (store s)(last (stacks s) := ObjectContainer ps' pr' None)\<rparr>)))"
  proof (intro impI allI)
    fix ps pr k
    assume ne: "stacks s \<noteq> []" and o: "store s (last (stacks s)) = ObjectContainer ps pr (Some k)"
    obtain ps' pr' where n: "objSet (nextId s) (store s) (last (stacks s)) ps pr k VNull = Inr (ps', pr')"
      "k \<noteq> PROTO \<longrightarrow> ps' = AList.update k VNull ps \<and> pr' = pr"
      "assignKey s (last (stacks s)) ps pr k VNull =
         Inr (s\<lparr>store := (store s)(last (stacks s) := ObjectContainer ps' pr' None)\<rparr>)"
      using assignKey_null[of s "last (stacks s)" ps pr k] by blast
    have "parse tokens = Inr (VRef (hd (stacks s)),
                     s\<lparr>store := (store s)(last (stacks s) := ObjectContainer ps' pr' None)\<rparr>)"
      using ne o cur n(3) by (simp add: p handleUnclosedContainers_def resolvePendingKey_def)
    then show "\<exists>ps' pr'. objSet (nextId s) (store s) (last (stacks s)) ps pr k VNull = Inr (ps', pr')
            \<and> (k \<noteq> PROTO \<longrightarrow> ps' = AList.update k VNull ps \<and> pr' = pr)
            \<and> parse tokens =
                Inr (VRef (hd (stacks s)),
                     s\<lparr>store := (store s)(last (stacks s) := ObjectContainer ps' pr' None)\<rparr>)"
      using n(1,2) by blast
  qed
  have c: "stacks s \<noteq> [] \<longrightarrow> (\<forall>ps pr. store s (last (stacks s)) = ObjectContainer ps pr None \<longrightarrow>
                 parse tokens = Inr (VRef (hd (stacks s)), s))"
    using cur by (simp add: p handleUnclosedContainers_def resolvePendingKey_def)
  have d: "stacks s \<noteq> [] \<longrightarrow> (\<forall>xs. store s (last (stacks s)) = ArrayContainer xs \<longrightarrow>
                 parse tokens = Inr (VRef (hd (stacks s)), s))"
    using cur by (simp add: p handleUnclosedContainers_def resolvePendingKey_def)
  have e: "parse [] = Inr (VUndefined, initialState)"
    by (simp add: parse_def parse_loop.simps[of "[]"] handleUnclosedContainers_def initialState_def)
  have f: "decodeTree (js ''{'') = Inr (Some (TObject []))"
    by code_simp
  have g: "decodeTree (js '''') = Inr (Some TUndefined)"
    by code_simp
  show ?thesis using a b c d e f g bot by blast
qed

theorem end_of_input_closes_containers_witness:
  "parse [mkToken BRACKET (js ''{''), mkToken IDENTIFIER (js ''age'')] =
     Inr (VRef 0,
          \<lparr>store = (\<lambda>a. ArrayContainer [])(0 := ObjectContainer [(js ''age'', VNull)] None None),
           nextId = 1, stacks = [0], currentContainer = Some 0\<rparr>)
   \<and> parse [] = Inr (VUndefined, initialState)"
proof -
  let ?tokens = "[mkToken BRACKET (js ''{''), mkToken IDENTIFIER (js ''age'')]"
  let ?s1 = "\<lparr>store = (\<lambda>a. ArrayContainer [])(0 := ObjectContainer [] None None),
           nextId = 1, stacks = [0], currentContainer = Some 0\<rparr>"
  let ?s2 = "\<lparr>store = (\<lambda>a. ArrayContainer [])(0 := ObjectContainer [] None (Some (js ''age''))),
           nextId = 1, stacks = [0], currentContainer = Some 0\<rparr>"
  have "loopBody ?tokens initialState 0 = Inr (Next ?s1 0)"
    by (simp add: loopBody_def handleBracketToken_def createObjectContainer_def linkToParent_def
        initialState_def mkToken_def js_def Let_def)
  then have r1: "reaches ?tokens ?s1 1"
    using reaches.step[OF reaches.start, of ?tokens ?s1 0] by simp
  have "loopBody ?tokens ?s1 1 = Inr (Next ?s2 1)"
    by (simp add: loopBody_def expectsKey_def handleObjectKey_def setKey_def mkToken_def)
  then have r2: "reaches ?tokens ?s2 2"
    using reaches.step[OF r1, of ?s2 1] by (simp add: numeral_2_eq_2)
  show ?thesis
    using end_of_input_closes_containers[OF r2] end_of_input_closes_containers[OF reaches.start, of "[]"] by (simp add: js_def PROTO_def)
qed

text \<open>
  C4 fails on the code for the pending key \<^verbatim>\<open>__proto__\<close>. In \<^verbatim>\<open>{"__proto__"\<close> the stream
  ends while the object is open and the key \<^verbatim>\<open>__proto__\<close> is pending. Line 483 resolves it
  with \<^verbatim>\<open>value[key] = null\<close>, which for this key calls the setter inherited from
  \<^verbatim>\<open>Object.prototype\<close>: the prototype of the object becomes \<^verbatim>\<open>null\<close>, no property is
  made, and the result is the empty object instead of the object with \<^verbatim>\<open>__proto__\<close> =
  null. With another key, as in \<^verbatim>\<open>{"a"\<close>, the key is resolved to \<^verbatim>\<open>null\<close>.
\<close>

theorem pending_proto_key_at_end_of_input:
  "map tvalue (tokenize (js ''{\"__proto__\"'')) = [js ''{'', js ''\"__proto__\"'']
   \<and> decodeTree (js ''{\"__proto__\"'') = Inr (Some (TObject []))
   \<and> (case decode (js ''{\"__proto__\"'') of
        Inl e \<Rightarrow> False
      | Inr (v, s) \<Rightarrow> v = VRef 0 \<and> store s 0 = ObjectContainer [] (Some VNull) None)
   \<and> decodeTree (js ''{\"a\"'') = Inr (Some (TObject [(js ''a'', TNull)]))"
  by code_simp

text \<open>
  C5. A comma token processed inside an open container appends \<^verbatim>\<open>null\<close> to the current
  container when it is an array and changes nothing when it is an object, whether the
  object waits for a key or for a value. \<^verbatim>\<open>[1, , 3]\<close> decodes to the array of 1, null
  and 3, and \<^verbatim>\<open>{"a": 1,, "b": 2}\<close> to the object with \<open>a\<close> = 1 and \<open>b\<close> = 2.
\<close>

theorem comma_placeholder_only_in_array:
  assumes "i < length tokens" and "ttype (tokens ! i) = PUNCTUATION"
    and "tvalue (tokens ! i) = js '',''" and "stacks s \<noteq> []" and "currentContainer s = Some c"
  shows "(\<forall>xs. store s c = ArrayContainer xs \<longrightarrow>
            loopBody tokens s i =
              Inr (Next (s\<lparr>store := (store s)(c := ArrayContainer (xs @ [VNull]))\<rparr>) i))
       \<and> (\<forall>ps pr k. store s c = ObjectContainer ps pr k \<longrightarrow> loopBody tokens s i = Inr (Next s i))
       \<and> decodeTree (js ''[1, , 3]'') =
            Inr (Some (TArray [TNumber (JNum 1), TNull, TNumber (JNum 3)]))
       \<and> decodeTree (js ''{\"a\": 1,, \"b\": 2}'') =
            Inr (Some (TObject [(js ''a'', TNumber (JNum 1)), (js ''b'', TNumber (JNum 2))]))"
proof -
  have a: "\<forall>xs. store s c = ArrayContainer xs \<longrightarrow>
            loopBody tokens s i =
              Inr (Next (s\<lparr>store := (store s)(c := ArrayContainer (xs @ [VNull]))\<rparr>) i)"
    using assms
    by (simp add: loopBody_def expectsKey_def handlePunctuationToken_def push_def)
  have b: "\<forall>ps pr k. store s c = ObjectContainer ps pr k \<longrightarrow> loopBody tokens s i = Inr (Next s i)"
  proof (intro allI impI)
    fix ps pr k
    assume o: "store s c = ObjectContainer ps pr k"
    show "loopBody tokens s i = Inr (Next s i)"
    proof (cases k)
      case None
      then show ?thesis
        using assms o by (simp add: loopBody_def expectsKey_def handleObjectKey_def)
    next
      case (Some key)
      then show ?thesis
        using assms o by (simp add: loopBody_def expectsKey_def handlePunctuationToken_def)
    qed
  qed
  have c: "decodeTree (js ''[1, , 3]'') =
            Inr (Some (TArray [TNumber (JNum 1), TNull, TNumber (JNum 3)]))"
    by code_simp
  have d: "decodeTree (js ''{\"a\": 1,, \"b\": 2}'') =
            Inr (Some (TObject [(js ''a'', TNumber (JNum 1)), (js ''b'', TNumber (JNum 2))]))"
    by code_simp
  show ?thesis using a b c d by simp
qed

theorem comma_placeholder_only_in_array_witness:
  "loopBody [mkToken PUNCTUATION (js '','')]
     \<lparr>store = (\<lambda>a. ArrayContainer [VBool True]), nextId = 1, stacks = [0],
      currentContainer = Some 0\<rparr> 0 =
   Inr (Next \<lparr>store = (\<lambda>a. ArrayContainer [VBool True])(0 := ArrayContainer [VBool True, VNull]),
              nextId = 1, stacks = [0], currentContainer = Some 0\<rparr> 0)
   \<and> loopBody [mkToken PUNCTUATION (js '','')]
     \<lparr>store = (\<lambda>a. ObjectContainer [] None None), nextId = 1, stacks = [0],
      currentContainer = Some 0\<rparr> 0 =
   Inr (Next \<lparr>store = (\<lambda>a. ObjectContainer [] None None), nextId = 1, stacks = [0],
      currentContainer = Some 0\<rparr> 0)"
  using comma_placeholder_only_in_array[of 0 "[mkToken PUNCTUATION (js '','')]"
           "\<lparr>store = (\<lambda>a. ArrayContainer [VBool True]), nextId = 1, stacks = [0],
             currentContainer = Some 0\<rparr>" 0]
    comma_placeholder_only_in_array[of 0 "[mkToken PUNCTUATION (js '','')]"
           "\<lparr>store = (\<lambda>a. ObjectContainer [] None None), nextId = 1, stacks = [0],
             currentContainer = Some 0\<rparr>" 0]
  by (simp add: mkToken_def)

text \<open>
  C6, as amended. A colon token processed while the current object has a pending key other
  than \<^verbatim>\<open>__proto__\<close> assigns \<^verbatim>\<open>null\<close> to that key (the own property of that name is made,
  or overwritten where it stands) and clears it when the colon is the last token or the
  text of the next token is \<^verbatim>\<open>,\<close> or \<^verbatim>\<open>}\<close>; before any other token, the closing bracket
  \<^verbatim>\<open>]\<close> among them, the colon changes nothing and the key, whatever it is, stays pending.
  \<^verbatim>\<open>{"name": "John", "age":\<close> decodes to the object with \<open>name\<close> = John and \<open>age\<close> = null.
\<close>

theorem colon_without_value_assigns_null:
  assumes "i < length tokens" and "ttype (tokens ! i) = PUNCTUATION"
    and "tvalue (tokens ! i) = js '':''" and "stacks s \<noteq> []"
    and "currentContainer s = Some c" and "store s c = ObjectContainer ps pr (Some k)"
  shows "(k \<noteq> PROTO
            \<and> (i + 1 < length tokens \<longrightarrow>
                 tvalue (tokens ! (i + 1)) = js '','' \<or> tvalue (tokens ! (i + 1)) = js ''}'') \<longrightarrow>
          loopBody tokens s i =
            Inr (Next (s\<lparr>store := (store s)(c := ObjectContainer (AList.update k VNull ps) pr None)\<rparr>) i))
       \<and> (i + 1 < length tokens \<and> tvalue (tokens ! (i + 1)) \<noteq> js '',''
            \<and> tvalue (tokens ! (i + 1)) \<noteq> js ''}'' \<longrightarrow>
          loopBody tokens s i = Inr (Next s i))
       \<and> decodeTree (js ''{\"name\": \"John\", \"age\":'') =
            Inr (Some (TObject [(js ''name'', TString (js ''John'')), (js ''age'', TNull)]))"
proof -
  have lb: "loopBody tokens s i =
      (case handlePunctuationToken (tokens ! i) tokens i s of
         Inl e \<Rightarrow> Inl e
       | Inr (PShouldThrow, s') \<Rightarrow> Inl UnexpectedPunctuation
       | Inr (PShouldContinue, s') \<Rightarrow> Inr (Next s' i))"
    using assms by (simp add: loopBody_def expectsKey_def)
  have colon: "tvalue (tokens ! i) \<noteq> js '',''"
    using assms(3) by (simp add: js_def)
  have res: "resolvePendingKey s = assignKey s c ps pr k VNull"
    using assms by (simp add: resolvePendingKey_def)
  have asg: "k \<noteq> PROTO \<Longrightarrow>
      assignKey s c ps pr k VNull =
        Inr (s\<lparr>store := (store s)(c := ObjectContainer (AList.update k VNull ps) pr None)\<rparr>)"
    by (simp add: assignKey_def objSet_def)
  have a: "k \<noteq> PROTO
            \<and> (i + 1 < length tokens \<longrightarrow>
                 tvalue (tokens ! (i + 1)) = js '','' \<or> tvalue (tokens ! (i + 1)) = js ''}'') \<longrightarrow>
          loopBody tokens s i =
            Inr (Next (s\<lparr>store := (store s)(c := ObjectContainer (AList.update k VNull ps) pr None)\<rparr>) i)"
    using assms(3,4) colon res asg by (auto simp: lb handlePunctuationToken_def Let_def)
  have b: "i + 1 < length tokens \<and> tvalue (tokens ! (i + 1)) \<noteq> js '',''
            \<and> tvalue (tokens ! (i + 1)) \<noteq> js ''}'' \<longrightarrow>
          loopBody tokens s i = Inr (Next s i)"
    using assms(3,4) colon by (auto simp: lb handlePunctuationToken_def Let_def)
  have c: "decodeTree (js ''{\"name\": \"John\", \"age\":'') =
            Inr (Some (TObject [(js ''name'', TString (js ''John'')), (js ''age'', TNull)]))"
    by code_simp
  show ?thesis using a b c by blast
qed

theorem colon_without_value_assigns_null_witness:
  "loopBody [mkToken PUNCTUATION (js '':''), mkToken BRACKET (js ''}'')]
     \<lparr>store = (\<lambda>a. ObjectContainer [] None (Some (js ''age''))), nextId = 1, stacks = [0],
      currentContainer = Some 0\<rparr> 0 =
   Inr (Next \<lparr>store = (\<lambda>a. ObjectContainer [] None (Some (js ''age'')))
                        (0 := ObjectContainer [(js ''age'', VNull)] None None),
              nextId = 1, stacks = [0], currentContainer = Some 0\<rparr> 0)
   \<and> loopBody [mkToken PUNCTUATION (js '':''), mkToken BRACKET (js '']'')]
     \<lparr>store = (\<lambda>a. ObjectContainer [] None (Some (js ''age''))), nextId = 1, stacks = [0],
      currentContainer = Some 0\<rparr> 0 =
   Inr (Next \<lparr>store = (\<lambda>a. ObjectContainer [] None (Some (js ''age''))), nextId = 1, stacks = [0],
      currentContainer = Some 0\<rparr> 0)"
  using colon_without_value_assigns_null[of 0 "[mkToken PUNCTUATION (js '':''), mkToken BRACKET (js ''}'')]"
           "\<lparr>store = (\<lambda>a. ObjectContainer [] None (Some (js ''age''))), nextId = 1, stacks = [0],
             currentContainer = Some 0\<rparr>" 0 "[]" None "js ''age''"]
    colon_without_value_assigns_null[of 0 "[mkToken PUNCTUATION (js '':''), mkToken BRACKET (js '']'')]"
           "\<lparr>store = (\<lambda>a. ObjectContainer [] None (Some (js ''age''))), nextId = 1, stacks = [0],
             currentContainer = Some 0\<rparr>" 0 "[]" None "js ''age''"]
  by (simp add: mkToken_def js_def PROTO_def)

text \<open>
  C6 as it is stated fails for the closing bracket \<^verbatim>\<open>]\<close>: in \<^verbatim>\<open>{"a":]\<close> the colon is
  followed by a closing bracket, the key \<open>a\<close> is not given \<^verbatim>\<open>null\<close>, and the result is the
  empty object.
\<close>

theorem colon_before_square_bracket_counterexample:
  "map tvalue (tokenize (js ''{\"a\":]'')) = [js ''{'', js ''\"a\"'', js '':'', js '']'']
   \<and> decodeTree (js ''{\"a\":]'') = Inr (Some (TObject []))"
  by code_simp

text \<open>
  C10. When the current object already has an own property for its pending key,
  \<^verbatim>\<open>assignValue\<close> overwrites it in place: the keys and their order stay what they were,
  the only entry for the key holds the new value, and every other entry is unchanged.
  \<^verbatim>\<open>{"a":1,"a":2}\<close> decodes to the object with the single property \<open>a\<close> = 2, and in
  \<^verbatim>\<open>{"a":1,"b":3,"a":2}\<close> the key \<open>a\<close> stays first.
\<close>

theorem duplicate_key_overwrites_in_place:
  assumes "currentContainer s = Some c" and "store s c = ObjectContainer ps pr (Some k)"
    and "k \<in> set (map fst ps)" and "distinct (map fst ps)"
  shows "assignValue v s tokens i =
           Inr (AContinue (nextIsComma tokens i),
                s\<lparr>store := (store s)(c := ObjectContainer (AList.update k v ps) pr None)\<rparr>)
       \<and> map fst (AList.update k v ps) = map fst ps
       \<and> filter (\<lambda>e. fst e = k) (AList.update k v ps) = [(k, v)]
       \<and> (\<forall>j < length ps. fst (ps ! j) \<noteq> k \<longrightarrow> AList.update k v ps ! j = ps ! j)
       \<and> decodeTree (js ''{\"a\":1,\"b\":3,\"a\":2}'') =
            Inr (Some (TObject [(js ''a'', TNumber (JNum 2)), (js ''b'', TNumber (JNum 3))]))
       \<and> decodeTree (js ''{\"a\":1,\"a\":2}'') = Inr (Some (TObject [(js ''a'', TNumber (JNum 2))]))"
proof -
  have a: "assignValue v s tokens i =
           Inr (AContinue (nextIsComma tokens i),
                s\<lparr>store := (store s)(c := ObjectContainer (AList.update k v ps) pr None)\<rparr>)"
  proof -
    have "hasOwn ps k"
      using assms(3) by (simp add: hasOwn_def)
    then have "objSet (nextId s) (store s) c ps pr k v = Inr (AList.update k v ps, pr)"
      by (simp add: objSet_def)
    then show ?thesis
      using assms(1,2) by (simp add: assignValue_def assignKey_def)
  qed
  have b: "map fst (AList.update k v ps) = map fst ps"
    using assms(3) by (simp add: update_keys)
  have c: "\<forall>j < length ps. fst (ps ! j) \<noteq> k \<longrightarrow> AList.update k v ps ! j = ps ! j"
    by (simp add: update_other_entries)
  have d: "decodeTree (js ''{\"a\":1,\"b\":3,\"a\":2}'') =
            Inr (Some (TObject [(js ''a'', TNumber (JNum 2)), (js ''b'', TNumber (JNum 3))]))"
    by code_simp
  have e: "decodeTree (js ''{\"a\":1,\"a\":2}'') = Inr (Some (TObject [(js ''a'', TNumber (JNum 2))]))"
    by code_simp
  show ?thesis
    using a b c d e update_present_entry[OF assms(3,4), of v] by simp
qed

theorem duplicate_key_overwrites_in_place_witness:
  "assignValue (VBool True)
     \<lparr>store = (\<lambda>a. ObjectContainer [(js ''a'', VNull), (js ''b'', VNull)] None (Some (js ''a''))),
      nextId = 1, stacks = [0], currentContainer = Some 0\<rparr> [] 0 =
   Inr (AContinue False,
     \<lparr>store = (\<lambda>a. ObjectContainer [(js ''a'', VNull), (js ''b'', VNull)] None (Some (js ''a'')))
                (0 := ObjectContainer [(js ''a'', VBool True), (js ''b'', VNull)] None None),
      nextId = 1, stacks = [0], currentContainer = Some 0\<rparr>)"
  using duplicate_key_overwrites_in_place[of "\<lparr>store = (\<lambda>a. ObjectContainer [(js ''a'', VNull), (js ''b'', VNull)] None (Some (js ''a''))),
      nextId = 1, stacks = [0], currentContainer = Some 0\<rparr>" 0 "[(js ''a'', VNull), (js ''b'', VNull)]"
      None "js ''a''" "VBool True" "[]" 0]
  by (simp add: js_def nextIsComma_def)

text \<open>
  C3. Let a string token start at \<open>startPos\<close>, and let its scan come to a raw line feed or
  carriage return at \<open>pos\<close> (the loop of \<^verbatim>\<open>parseStringToken\<close> reaches \<open>pos\<close>) with the text
  scanned so far ending in a backslash, a quote and an optional comma or colon. Then the
  token's content ends just before that backslash, the step of \<^verbatim>\<open>tokenize\<close> pushes this
  one token, and the cursor is then at \<open>pos\<close>: the escape and the optional separator have
  been skipped and tokenizing resumes at the newline, so nothing after it is string
  content. In an array of strings such a string is cut before the bad escape and the
  next string is a token of its own.
\<close>

theorem bad_escape_before_newline_ends_string:
  assumes "startPos < length s" and "s ! startPos = DQUOTE \<or> s ! startPos = SQUOTE"
    and "scanReaches s startPos (s ! startPos) (startPos + 1) pos"
    and "pos < length s" and "s ! pos = LF \<or> s ! pos = CR"
    and "matchEscapedQuote (slice s (startPos + 1) pos) = Some index"
  shows "startPos + 1 + index < pos \<and> s ! (startPos + 1 + index) = BACKSLASH
       \<and> tokenizeStep s startPos =
           ([mkToken STRING
               (normalizeQuotes (s ! startPos)
                  ([s ! startPos] @ slice s (startPos + 1) (startPos + 1 + index) @ [s ! startPos]))],
            pos)
       \<and> tokenize_loop s startPos tokens =
           tokenize_loop s pos
             (tokens @ [mkToken STRING
                (normalizeQuotes (s ! startPos)
                   ([s ! startPos] @ slice s (startPos + 1) (startPos + 1 + index) @ [s ! startPos]))])
       \<and> (s ! startPos = DQUOTE \<longrightarrow>
            normalizeQuotes (s ! startPos)
              ([s ! startPos] @ slice s (startPos + 1) (startPos + 1 + index) @ [s ! startPos])
            = [DQUOTE] @ slice s (startPos + 1) (startPos + 1 + index) @ [DQUOTE])
       \<and> tokenize (js ''[\"ab'' @ [BACKSLASH, DQUOTE, LF] @ js '',\"cd\"]'') =
           [mkToken BRACKET (js ''[''), mkToken STRING (js ''\"ab\"''),
            mkToken PUNCTUATION (js '',''), mkToken STRING (js ''\"cd\"''),
            mkToken BRACKET (js '']'')]
       \<and> decodeTree (js ''[\"ab'' @ [BACKSLASH, DQUOTE] @ js '','' @ [LF] @ js ''\"cd\"]'') =
           Inr (Some (TArray [TString (js ''ab''), TString (js ''cd'')]))"
proof -
  let ?q = "s ! startPos"
  let ?b = "slice s (startPos + 1) pos"
  let ?p = "startPos + 1 + index"
  have le: "startPos + 1 \<le> pos"
    using scanReaches_le[OF assms(3)] .
  have len: "length ?b = pos - (startPos + 1)"
    using assms(4) by (simp add: slice_length)
  have q: "s ! pos \<noteq> ?q" "s ! pos \<noteq> BACKSLASH"
    using assms(2,5) by (auto simp: DQUOTE_def SQUOTE_def LF_def CR_def BACKSLASH_def)
  have scan: "scanString s startPos ?q (startPos + 1) = (?p, Some index)"
    using scanReaches_scanString[OF assms(3)] assms(4,5,6) q
    by (simp add: scanString.simps[of s startPos ?q pos] Let_def)
  have pst: "parseStringToken s startPos =
      (mkToken STRING (normalizeQuotes ?q ([?q] @ slice s (startPos + 1) ?p @ [?q])), ?p, True)"
    using scan by (simp add: parseStringToken_def Let_def)
  from matchEscapedQuote_Some[OF assms(6)]
  have skip: "?p < pos \<and> s ! ?p = BACKSLASH \<and> skipBadEscape s ?p = pos"
  proof
    assume a: "index + 3 = length ?b \<and> ?b ! index = BACKSLASH \<and> isQuote (?b ! (index + 1))
            \<and> (?b ! (index + 2) = ch CHR '','' \<or> ?b ! (index + 2) = ch CHR '':'')"
    then have "index + 3 = pos - (startPos + 1)" using len by simp
    then have p3: "?p + 3 = pos" using le by arith
    have "?b ! index = s ! ?p" "?b ! (index + 1) = s ! (?p + 1)" "?b ! (index + 2) = s ! (?p + 2)"
      using p3 assms(4) by (simp_all add: slice_def add.assoc)
    then show ?thesis
      using a p3 assms(4) by (auto simp: skipBadEscape_def)
  next
    assume a: "index + 2 = length ?b \<and> ?b ! index = BACKSLASH \<and> isQuote (?b ! (index + 1))"
    then have "index + 2 = pos - (startPos + 1)" using len by simp
    then have p2: "?p + 2 = pos" using le by arith
    have "?b ! index = s ! ?p" "?b ! (index + 1) = s ! (?p + 1)"
      using p2 assms(4) by (simp_all add: slice_def add.assoc)
    moreover have "s ! (?p + 2) \<noteq> ch CHR '',''" "s ! (?p + 2) \<noteq> ch CHR '':''"
      using p2 assms(5) by (auto simp: LF_def CR_def)
    ultimately show ?thesis
      using a p2 assms(4) by (auto simp: skipBadEscape_def)
  qed
  have big: "\<not> ?q \<le> 32" "?q \<noteq> ch CHR ''/''"
    using assms(2) by (auto simp: DQUOTE_def SQUOTE_def)
  have step: "tokenizeStep s startPos =
           ([mkToken STRING (normalizeQuotes ?q ([?q] @ slice s (startPos + 1) ?p @ [?q]))], pos)"
    using big assms(2) pst skip by (simp add: tokenizeStep_def Let_def)
  have loop: "tokenize_loop s startPos tokens =
      tokenize_loop s pos
        (tokens @ [mkToken STRING (normalizeQuotes ?q ([?q] @ slice s (startPos + 1) ?p @ [?q]))])"
    using assms(1) step by (simp add: tokenize_loop.simps[of s startPos tokens])
  have dq: "?q = DQUOTE \<longrightarrow> normalizeQuotes ?q ([?q] @ slice s (startPos + 1) ?p @ [?q])
              = [DQUOTE] @ slice s (startPos + 1) ?p @ [DQUOTE]"
    by (simp add: normalizeQuotes_def DQUOTE_def SQUOTE_def)
  have ex1: "tokenize (js ''[\"ab'' @ [BACKSLASH, DQUOTE, LF] @ js '',\"cd\"]'') =
           [mkToken BRACKET (js ''[''), mkToken STRING (js ''\"ab\"''),
            mkToken PUNCTUATION (js '',''), mkToken STRING (js ''\"cd\"''),
            mkToken BRACKET (js '']'')]"
    by code_simp
  have ex2: "decodeTree (js ''[\"ab'' @ [BACKSLASH, DQUOTE] @ js '','' @ [LF] @ js ''\"cd\"]'') =
           Inr (Some (TArray [TString (js ''ab''), TString (js ''cd'')]))"
    by code_simp
  show ?thesis
    using skip step loop dq ex1 ex2 by simp
qed

theorem bad_escape_before_newline_ends_string_witness:
  "tokenizeStep (js ''\"a'' @ [BACKSLASH, DQUOTE, LF]) 0 = ([mkToken STRING (js ''\"a\"'')], 4)"
proof -
  let ?s = "js ''\"a'' @ [BACKSLASH, DQUOTE, LF]"
  have r4: "scanReaches ?s 0 DQUOTE 4 4"
    by (rule scanReaches.here)
  have r2: "scanReaches ?s 0 DQUOTE 2 4"
    using scanReaches.escape[where s = ?s and pos = 2 and pos' = 4 and startPos = 0
        and quoteChar = DQUOTE] r4
    by (simp add: js_def DQUOTE_def BACKSLASH_def)
  have r1: "scanReaches ?s 0 DQUOTE 1 4"
    using scanReaches.other[where s = ?s and pos = 1 and pos' = 4 and startPos = 0
        and quoteChar = DQUOTE] r2
    by (simp add: js_def DQUOTE_def BACKSLASH_def LF_def CR_def numeral_2_eq_2)
  have m: "matchEscapedQuote (slice ?s (0 + 1) 4) = Some 1"
    by (simp add: matchEscapedQuote_def slice_def js_def isQuote_def DQUOTE_def BACKSLASH_def LF_def
        Let_def)
  have r: "scanReaches ?s 0 (?s ! 0) (0 + 1) 4"
    using r1 by (simp add: js_def DQUOTE_def)
  show ?thesis
    using bad_escape_before_newline_ends_string[of 0 ?s 4 1 "[]", OF _ _ r _ _ m]
    by (simp add: js_def DQUOTE_def LF_def normalizeQuotes_def SQUOTE_def slice_def BACKSLASH_def)
qed

text \<open>
  C7. Leaf decoding of an IDENTIFIER token lower-cases its text and compares it with the
  four alias sets: a truthy alias gives \<^verbatim>\<open>true\<close>, a falsy one \<^verbatim>\<open>false\<close>, a null-like one
  \<^verbatim>\<open>null\<close>, an undefined-like one \<^verbatim>\<open>undefined\<close>, and any other text gives the string of
  the text itself; it never fails. This is the value of the token at top level and of
  every identifier inside a container that no other identifier follows (a run of
  identifiers is joined to one string before leaf decoding).
\<close>

theorem identifier_alias_decoding:
  assumes "ttype token = IDENTIFIER"
  shows "(toLowerCase (tvalue token) \<in> set (map js [''t'', ''tr'', ''tru'', ''true''])
            \<longrightarrow> parseValueToken token = Inr (VBool True))
       \<and> (toLowerCase (tvalue token) \<in> set (map js [''f'', ''fa'', ''fal'', ''fals'', ''false''])
            \<longrightarrow> parseValueToken token = Inr (VBool False))
       \<and> (toLowerCase (tvalue token)
              \<in> set (map js [''n'', ''nu'', ''nul'', ''null'', ''no'', ''non'', ''none'', ''nil'', ''nill''])
            \<longrightarrow> parseValueToken token = Inr VNull)
       \<and> (toLowerCase (tvalue token)
              \<in> set (map js [''u'', ''un'', ''und'', ''unde'', ''undef'', ''undefi'', ''undefin'',
                              ''undefined''])
            \<longrightarrow> parseValueToken token = Inr VUndefined)
       \<and> (toLowerCase (tvalue token)
              \<notin> set (map js [''t'', ''tr'', ''tru'', ''true'', ''f'', ''fa'', ''fal'', ''fals'', ''false'',
                              ''n'', ''nu'', ''nul'', ''null'', ''no'', ''non'', ''none'', ''nil'', ''nill'',
                              ''u'', ''un'', ''und'', ''unde'', ''undef'', ''undefi'', ''undefin'',
                              ''undefined''])
            \<longrightarrow> parseValueToken token = Inr (VString (tvalue token)))
       \<and> (\<exists>v. parseValueToken token = Inr v \<and> parse [token] = Inr (v, initialState)
              \<and> (\<forall>tokens s i. i < length tokens \<and> tokens ! i = token
                     \<and> (i + 1 < length tokens \<longrightarrow> ttype (tokens ! (i + 1)) \<noteq> IDENTIFIER)
                   \<longrightarrow> tokenValue tokens s i = Inr (v, i)))
       \<and> decodeTree (js ''TRUE'') = Inr (Some (TBool True))
       \<and> decodeTree (js ''[Fal, nIL, Undef, Hello]'') =
            Inr (Some (TArray [TBool False, TNull, TUndefined, TString (js ''Hello'')]))"
proof -
  have pv: "parseValueToken token = Inr (parseIdentifierValue token)"
    using assms by (simp add: parseValueToken_def)
  have a: "toLowerCase (tvalue token) \<in> set (map js [''t'', ''tr'', ''tru'', ''true''])
            \<longrightarrow> parseIdentifierValue token = VBool True"
    by (simp add: parseIdentifierValue_def has_def TRUE_ALIAS_def)
  have b: "toLowerCase (tvalue token) \<in> set (map js [''f'', ''fa'', ''fal'', ''fals'', ''false''])
            \<longrightarrow> parseIdentifierValue token = VBool False"
    by (auto simp: parseIdentifierValue_def has_def TRUE_ALIAS_def FALSE_ALIAS_def js_def)
  have c: "toLowerCase (tvalue token)
              \<in> set (map js [''n'', ''nu'', ''nul'', ''null'', ''no'', ''non'', ''none'', ''nil'', ''nill''])
            \<longrightarrow> parseIdentifierValue token = VNull"
    by (auto simp: parseIdentifierValue_def has_def TRUE_ALIAS_def FALSE_ALIAS_def NULL_ALIAS_def js_def)
  have d: "toLowerCase (tvalue token)
              \<in> set (map js [''u'', ''un'', ''und'', ''unde'', ''undef'', ''undefi'', ''undefin'',
                              ''undefined''])
            \<longrightarrow> parseIdentifierValue token = VUndefined"
    by (auto simp: parseIdentifierValue_def has_def TRUE_ALIAS_def FALSE_ALIAS_def NULL_ALIAS_def
        UNDEFINED_ALIAS_def js_def)
  have e: "toLowerCase (tvalue token)
              \<notin> set (map js [''t'', ''tr'', ''tru'', ''true'', ''f'', ''fa'', ''fal'', ''fals'', ''false'',
                              ''n'', ''nu'', ''nul'', ''null'', ''no'', ''non'', ''none'', ''nil'', ''nill'',
                              ''u'', ''un'', ''und'', ''unde'', ''undef'', ''undefi'', ''undefin'',
                              ''undefined''])
            \<longrightarrow> parseIdentifierValue token = VString (tvalue token)"
    by (simp add: parseIdentifierValue_def has_def TRUE_ALIAS_def FALSE_ALIAS_def NULL_ALIAS_def
        UNDEFINED_ALIAS_def)
  have f: "parse [token] = Inr (parseIdentifierValue token, initialState)"
    using assms pv by (simp add: parse_single_value)
  have tv: "\<forall>tokens s i. i < length tokens \<and> tokens ! i = token
                     \<and> (i + 1 < length tokens \<longrightarrow> ttype (tokens ! (i + 1)) \<noteq> IDENTIFIER)
                   \<longrightarrow> tokenValue tokens s i = Inr (parseIdentifierValue token, i)"
    using assms tokenValue_lone_identifier by blast
  have g: "decodeTree (js ''TRUE'') = Inr (Some (TBool True))"
    by code_simp
  have h: "decodeTree (js ''[Fal, nIL, Undef, Hello]'') =
            Inr (Some (TArray [TBool False, TNull, TUndefined, TString (js ''Hello'')]))"
    by code_simp
  show ?thesis
    using a b c d e f g h tv by (simp only: pv) blast
qed

theorem identifier_alias_decoding_witness:
  "parseValueToken (mkToken IDENTIFIER (js ''Tru'')) = Inr (VBool True)
   \<and> parseValueToken (mkToken IDENTIFIER (js ''NONE'')) = Inr VNull
   \<and> parseValueToken (mkToken IDENTIFIER (js ''Maybe'')) = Inr (VString (js ''Maybe''))"
  using identifier_alias_decoding[of "mkToken IDENTIFIER (js ''Tru'')"] identifier_alias_decoding[of "mkToken IDENTIFIER (js ''NONE'')"]
    identifier_alias_decoding[of "mkToken IDENTIFIER (js ''Maybe'')"]
  by (simp add: mkToken_def js_def toLowerCase_def lowerUnit_def)

text \<open>
  C9, as amended. Leaf decoding of a NUMBER token never fails. Its value is what
  \<^verbatim>\<open>parseInt\<close> gives for the text of a hexadecimal token, or for the text after the first
  two characters of an octal or binary token, in that radix, and what \<^verbatim>\<open>parseFloat\<close> gives
  for the text of any other token, negated for a negative token; \<^verbatim>\<open>parse\<close> returns it like
  any other value. A text that does not parse as a number in its radix decodes to \<open>NaN\<close>:
  \<^verbatim>\<open>0x\<close>, \<^verbatim>\<open>0o\<close> and \<^verbatim>\<open>0b\<close> decode to \<open>NaN\<close>, while \<^verbatim>\<open>0x1F\<close> decodes to 31, \<^verbatim>\<open>-0o17\<close> to
  -15, \<^verbatim>\<open>0b101\<close> to 5, \<^verbatim>\<open>-12.5e1\<close> to -125 and \<^verbatim>\<open>1.5.2\<close> to 1.5. The value is a binary64
  float: \<^verbatim>\<open>0.1\<close> decodes to the float nearest to a tenth, \<^verbatim>\<open>-0\<close> to the negative zero,
  and the negative decimal token \<^verbatim>\<open>2e308\<close> to \<open>-Infinity\<close>.
\<close>

theorem number_token_never_rejected:
  assumes "ttype token = NUMBER"
  shows "(let v = (if radix token = Some RADIX_HEXADECIMAL then parseInt (tvalue token) 16
                   else if radix token = Some RADIX_OCTAL then parseInt (drop 2 (tvalue token)) 8
                   else if radix token = Some RADIX_BINARY then parseInt (drop 2 (tvalue token)) 2
                   else parseFloat (tvalue token));
              x = (if isNegative token then negate v else v)
          in parseValueToken token = Inr (VNumber x)
             \<and> parse [token] = Inr (VNumber x, initialState)
             \<and> (x = NaN \<longleftrightarrow> v = NaN))
       \<and> parseInt (js ''0x'') 16 = NaN \<and> parseInt (drop 2 (js ''0o'')) 8 = NaN
       \<and> parseInt (drop 2 (js ''0b'')) 2 = NaN
       \<and> decodeTree (js ''0x'') = Inr (Some (TNumber NaN))
       \<and> decodeTree (js ''[-0x, 0o, 0b]'') =
            Inr (Some (TArray [TNumber NaN, TNumber NaN, TNumber NaN]))
       \<and> decodeTree (js ''[0x1F, -0o17, 0b101, -12.5e1, 1.5.2]'') =
            Inr (Some (TArray [TNumber (JNum 31), TNumber (JNum (- 15)), TNumber (JNum 5),
                               TNumber (JNum (- 125)), TNumber (JNum (3 / 2))]))
       \<and> decodeTree (js ''[0.1, -0]'') =
            Inr (Some (TArray [TNumber (JNum (3602879701896397 / 36028797018963968)),
                               TNumber NegZero]))
       \<and> parseValueToken \<lparr>ttype = NUMBER, tvalue = js ''2e308'', radix = Some RADIX_DECIMAL,
                            isNegative = True, isPositive = False\<rparr> = Inr (VNumber NegInfinity)"
proof -
  define v where "v = (if radix token = Some RADIX_HEXADECIMAL then parseInt (tvalue token) 16
                   else if radix token = Some RADIX_OCTAL then parseInt (drop 2 (tvalue token)) 8
                   else if radix token = Some RADIX_BINARY then parseInt (drop 2 (tvalue token)) 2
                   else parseFloat (tvalue token))"
  define x where "x = (if isNegative token then negate v else v)"
  have pn: "parseNumberValue token = x"
    by (simp add: parseNumberValue_def x_def v_def Let_def)
  have a: "parseValueToken token = Inr (VNumber x)"
    using assms pn by (simp add: parseValueToken_def)
  have b: "parse [token] = Inr (VNumber x, initialState)"
    using assms a by (simp add: parse_single_value)
  have c: "x = NaN \<longleftrightarrow> v = NaN"
    by (cases v) (simp_all add: x_def)
  have g: "parseInt (js ''0x'') 16 = NaN" by code_simp
  have h: "parseInt (drop 2 (js ''0o'')) 8 = NaN" by code_simp
  have i: "parseInt (drop 2 (js ''0b'')) 2 = NaN" by code_simp
  have j: "decodeTree (js ''0x'') = Inr (Some (TNumber NaN))" by code_simp
  have k: "decodeTree (js ''[-0x, 0o, 0b]'') =
            Inr (Some (TArray [TNumber NaN, TNumber NaN, TNumber NaN]))" by code_simp
  have l: "decodeTree (js ''[0x1F, -0o17, 0b101, -12.5e1, 1.5.2]'') =
            Inr (Some (TArray [TNumber (JNum 31), TNumber (JNum (- 15)), TNumber (JNum 5),
                               TNumber (JNum (- 125)), TNumber (JNum (3 / 2))]))" by code_simp
  have m: "decodeTree (js ''[0.1, -0]'') =
            Inr (Some (TArray [TNumber (JNum (3602879701896397 / 36028797018963968)),
                               TNumber NegZero]))" by code_simp
  have n: "parseValueToken \<lparr>ttype = NUMBER, tvalue = js ''2e308'', radix = Some RADIX_DECIMAL,
                            isNegative = True, isPositive = False\<rparr> = Inr (VNumber NegInfinity)"
    by (simp add: parseValueToken_def parseNumberValue_def parseFloat_overflow RADIX_DECIMAL_def
        RADIX_HEXADECIMAL_def RADIX_OCTAL_def RADIX_BINARY_def)
  show ?thesis
    unfolding Let_def v_def[symmetric] x_def[symmetric]
    using a b c g h i j k l m n by blast
qed

theorem number_token_never_rejected_witness:
  "parse [\<lparr>ttype = NUMBER, tvalue = js ''0x'', radix = Some 16, isNegative = True,
           isPositive = False\<rparr>] = Inr (VNumber NaN, initialState)
   \<and> parse [\<lparr>ttype = NUMBER, tvalue = js ''1F'', radix = Some 16, isNegative = True,
           isPositive = False\<rparr>] = Inr (VNumber (JNum (- 31)), initialState)"
proof -
  have a: "parseInt (js ''0x'') 16 = NaN" by code_simp
  have b: "parseInt (js ''1F'') 16 = JNum 31" by code_simp
  show ?thesis
    using number_token_never_rejected[of "\<lparr>ttype = NUMBER, tvalue = js ''0x'', radix = Some 16,
             isNegative = True, isPositive = False\<rparr>"]
      number_token_never_rejected[of "\<lparr>ttype = NUMBER, tvalue = js ''1F'', radix = Some 16,
             isNegative = True, isPositive = False\<rparr>"]
    by (simp add: RADIX_HEXADECIMAL_def Let_def a b)
qed

text \<open>
  C9 as it is stated fails: \<^verbatim>\<open>0x\<close> is a hexadecimal NUMBER token with no digits, and
  decoding it gives the value \<open>NaN\<close>, not an error.
\<close>

theorem hex_without_digits_counterexample:
  "tokenize (js ''0x'') =
     [\<lparr>ttype = NUMBER, tvalue = js ''0x'', radix = Some 16, isNegative = False, isPositive = False\<rparr>]
   \<and> decodeTree (js ''0x'') = Inr (Some (TNumber NaN))"
  by code_simp


end
